theory Spec2Isabelle
  imports Main "HOL-Library.Word"
begin

section \<open>html2md: the Converter class of \<^verbatim>\<open>include/html2md.h\<close>\<close>

text \<open>
  The header declares the class \<^verbatim>\<open>html2md::Converter\<close>, its fields with their default
  initialisers, and defines inline: \<^verbatim>\<open>utils::Repeat\<close>, every tag handler
  (\<^verbatim>\<open>struct Tag...\<close> with \<^verbatim>\<open>OnHasLeftOpeningTag\<close> and \<^verbatim>\<open>OnHasLeftClosingTag\<close>),
  \<^verbatim>\<open>TagContainsAttributesToHide\<close>, \<^verbatim>\<open>IsIgnoredTag\<close>, \<^verbatim>\<open>IsInIgnoredTag\<close>,
  \<^verbatim>\<open>UpdateMdLen\<close> and the \<^verbatim>\<open>std::string\<close> overload of \<^verbatim>\<open>AppendToMd\<close>.
  These are embedded below as they are written.

  Member functions that the header only declares (\<^verbatim>\<open>AppendToMd(char)\<close>,
  \<^verbatim>\<open>AppendToMd(const char*)\<close>, \<^verbatim>\<open>AppendBlank\<close>, \<^verbatim>\<open>ShortenMarkdown\<close>, \<^verbatim>\<open>RTrim\<close>,
  \<^verbatim>\<open>UpdatePrevChFromMd\<close>, \<^verbatim>\<open>ExtractAttributeFromTagLeftOf\<close>,
  \<^verbatim>\<open>ReplacePreviousSpaceInLineByNewline\<close>, \<^verbatim>\<open>TurnLineIntoHeader1\<close>, the scanner and the
  normalizer) have no body in the sources; each is given a definition whose comment starts
  with \<open>Modelled from the spec:\<close>.
\<close>

subsection \<open>Characters and string utilities\<close>

definition NUL :: char where
  "NUL = CHR 0x00"

definition NL :: char where
  "NL = CHR 0x0A"

definition TAB :: char where
  "TAB = CHR 0x09"

definition DQUOTE :: char where
  "DQUOTE = CHR 0x22"

text \<open>\<^verbatim>\<open>isspace\<close> and \<^verbatim>\<open>isblank\<close> of the C locale.\<close>

definition isspace :: "char \<Rightarrow> bool" where
  "isspace ch \<longleftrightarrow>
     ch = CHR '' '' \<or> ch = CHR 0x09 \<or> ch = CHR 0x0A \<or> ch = CHR 0x0B \<or> ch = CHR 0x0C \<or> ch = CHR 0x0D"

definition isblank :: "char \<Rightarrow> bool" where
  "isblank ch \<longleftrightarrow> ch = CHR '' '' \<or> ch = CHR 0x09"

text \<open>\<^verbatim>\<open>std::string::c_str()\<close> read back as a C string: the bytes before the first NUL.\<close>

definition c_str :: "string \<Rightarrow> string" where
  "c_str s = takeWhile (\<lambda>ch. ch \<noteq> NUL) s"

text \<open>\<^verbatim>\<open>utils::startsWith\<close> (declared in the header).\<close>

definition startsWith :: "string \<Rightarrow> string \<Rightarrow> bool" where
  "startsWith str pre \<longleftrightarrow> take (length pre) str = pre"

text \<open>\<^verbatim>\<open>std::string::find(needle)\<close>: the first position where \<open>needle\<close> occurs, \<open>None\<close> for
  \<^verbatim>\<open>npos\<close>.\<close>

fun find_str :: "string \<Rightarrow> string \<Rightarrow> nat option" where
  "find_str [] needle = (if needle = [] then Some 0 else None)"
| "find_str (h # t) needle =
     (if startsWith (h # t) needle then Some 0 else map_option Suc (find_str t needle))"

text \<open>\<^verbatim>\<open>std::to_string(int)\<close>: decimal digits, a leading minus sign for negative values.\<close>

fun digits_of :: "nat \<Rightarrow> string" where
  "digits_of n =
     (if n < 10 then [''0123456789'' ! n]
      else digits_of (n div 10) @ [''0123456789'' ! (n mod 10)])"

declare digits_of.simps [simp del]

definition to_string :: "int \<Rightarrow> string" where
  "to_string i = (if i < 0 then CHR ''-'' # digits_of (nat (- i)) else digits_of (nat i))"

subsection \<open>utils::Repeat\<close>

text \<open>
  \<^verbatim>\<open>
  static inline std::string Repeat(const std::string &str, size_t amount) {
    if (amount == 0) return "";
    else if (amount == 1) return str;
    std::string out;
    for (uint16_t i = 0; i < amount; i++) { out += str; }
    return out;
  }\<close>
  The counter is a \<^verbatim>\<open>uint16_t\<close>, so \<open>i + 1\<close> wraps at \<open>2 ^ 16\<close>; \<open>amount\<close> is a
  \<^verbatim>\<open>size_t\<close>, read here as a natural number. The loop may not end, so it is a partial
  function in the option monad: \<open>None\<close> is the loop that never returns.
\<close>

partial_function (option) Repeat_loop :: "string \<Rightarrow> nat \<Rightarrow> 16 word \<Rightarrow> string \<Rightarrow> string option" where
  "Repeat_loop str amount i out =
     (if unat i < amount then Repeat_loop str amount (i + 1) (out @ str) else Some out)"

declare Repeat_loop.simps [code]

definition Repeat :: "string \<Rightarrow> nat \<Rightarrow> string option" where
  "Repeat str amount =
     (if amount = 0 then Some []
      else if amount = 1 then Some str
      else Repeat_loop str amount 0 [])"

text \<open>The conversion of a \<^verbatim>\<open>short\<close> argument to the \<^verbatim>\<open>size_t\<close> parameter (64 bits): sign
  extension, then the unsigned reading.\<close>

definition size_t_of_short :: "16 word \<Rightarrow> nat" where
  "size_t_of_short w = unat (scast w :: 64 word)"

subsection \<open>The fields of the class\<close>

text \<open>
  One record field per data member, in the header's order (the trailing underscore of the
  C++ names is dropped). \<^verbatim>\<open>uint16_t\<close> members are 16-bit words, \<^verbatim>\<open>short\<close> is a 16-bit
  word read with \<open>sint\<close>, \<^verbatim>\<open>size_t\<close> members are natural numbers, \<^verbatim>\<open>int index_li\<close> is a
  32-bit word read with \<open>sint\<close>. Signed overflow is undefined in C++; on the words here
  \<^verbatim>\<open>++\<close> and \<^verbatim>\<open>--\<close> wrap around, as two's complement hardware does.
  The dispatch table \<^verbatim>\<open>tags_\<close> is filled by the constructor, which is not in the header.
\<close>

record Converter =
  index_ch_in_html :: "16 word"
  dom_tags :: "string list"
  is_in_tag :: bool
  is_closing_tag :: bool
  is_in_attribute_value :: bool
  is_in_pre :: bool
  is_in_code :: bool
  is_in_table :: bool
  is_in_list :: bool
  is_in_ordered_list :: bool
  index_li :: "32 word"
  index_blockquote :: "16 word"
  prev_ch_in_md :: char
  prev_prev_ch_in_md :: char
  prev_ch_in_html :: char
  html :: string
  offset_lt :: "16 word"
  current_tag :: string
  prev_tag :: string
  current_attribute :: string
  current_attribute_value :: string
  current_href :: string
  current_title :: string
  current_alt :: string
  current_src :: string
  tableLine :: string
  chars_in_curr_line :: nat
  char_index_in_tag_content :: "16 word"
  md :: string
  md_len :: nat

text \<open>The default member initialisers of the header, with \<open>html_\<close> set to the input.
  \<^verbatim>\<open>offset_lt_\<close> has no initialiser; it is written before it is read and starts at 0 here.\<close>

definition Converter_init :: "string \<Rightarrow> Converter" where
  "Converter_init h =
     \<lparr> index_ch_in_html = 0, dom_tags = [], is_in_tag = False, is_closing_tag = False,
       is_in_attribute_value = False, is_in_pre = False, is_in_code = False,
       is_in_table = False, is_in_list = False, is_in_ordered_list = False, index_li = 0,
       index_blockquote = 0, prev_ch_in_md = NUL, prev_prev_ch_in_md = NUL,
       prev_ch_in_html = CHR ''x'', html = h, offset_lt = 0, current_tag = [], prev_tag = [],
       current_attribute = [], current_attribute_value = [], current_href = [],
       current_title = [], current_alt = [], current_src = [], tableLine = [],
       chars_in_curr_line = 0, char_index_in_tag_content = 0, md = [], md_len = 0 \<rparr>"

subsection \<open>Tag names\<close>

definition kTagAnchor :: string where "kTagAnchor = ''a''"
definition kTagImg :: string where "kTagImg = ''img''"
definition kTagParagraph :: string where "kTagParagraph = ''p''"
definition kTagPre :: string where "kTagPre = ''pre''"
definition kTagTitle :: string where "kTagTitle = ''title''"
definition kTagTemplate :: string where "kTagTemplate = ''template''"
definition kTagStyle :: string where "kTagStyle = ''style''"
definition kTagScript :: string where "kTagScript = ''script''"
definition kTagNoScript :: string where "kTagNoScript = ''noscript''"
definition kTagNav :: string where "kTagNav = ''nav''"

definition kAttributeHref :: string where "kAttributeHref = ''href''"
definition kAttributeAlt :: string where "kAttributeAlt = ''alt''"
definition kAttributeTitle :: string where "kAttributeTitle = ''title''"
definition kAttributeClass :: string where "kAttributeClass = ''class''"
definition kAttributeSrc :: string where "kAttributeSrc = ''src''"
definition kAttrinuteAlign :: string where "kAttrinuteAlign = ''align''"

subsection \<open>IsIgnoredTag and IsInIgnoredTag\<close>

text \<open>
  \<^verbatim>\<open>
  inline static bool IsIgnoredTag(const std::string &tag) {
    return (tag[0] == '-' || kTagTemplate == tag || kTagStyle == tag
        || kTagScript == tag || kTagNoScript == tag || kTagNav == tag);
  }\<close>
  \<^verbatim>\<open>tag[0]\<close> of an empty \<^verbatim>\<open>std::string\<close> is the terminating NUL, which is not \<^verbatim>\<open>'-'\<close>.
\<close>

definition IsIgnoredTag :: "string \<Rightarrow> bool" where
  "IsIgnoredTag tag \<longleftrightarrow>
     (case tag of [] \<Rightarrow> False | ch # _ \<Rightarrow> ch = CHR ''-'')
     \<or> kTagTemplate = tag \<or> kTagStyle = tag \<or> kTagScript = tag
     \<or> kTagNoScript = tag \<or> kTagNav = tag"

text \<open>
  \<^verbatim>\<open>
  bool IsInIgnoredTag() const {
    auto len = dom_tags_.size();
    for (int i = 0; i < len; ++i) {
      std::string tag = dom_tags_[i];
      if (kTagPre == tag || kTagTitle == tag) return false;
      if (IsIgnoredTag(tag)) return true;
    }
    return false;
  }\<close>
  The loop walks the stack from index 0, the outermost open tag.
\<close>

fun IsInIgnoredTag_loop :: "string list \<Rightarrow> bool" where
  "IsInIgnoredTag_loop [] = False"
| "IsInIgnoredTag_loop (tag # rest) =
     (if kTagPre = tag \<or> kTagTitle = tag then False
      else if IsIgnoredTag tag then True
      else IsInIgnoredTag_loop rest)"

definition IsInIgnoredTag :: "Converter \<Rightarrow> bool" where
  "IsInIgnoredTag c = IsInIgnoredTag_loop (dom_tags c)"

subsection \<open>TagContainsAttributesToHide\<close>

definition TagContainsAttributesToHide :: "string \<Rightarrow> bool" where
  "TagContainsAttributesToHide tag \<longleftrightarrow>
     find_str tag ([CHR '' ''] @ ''aria='' @ [DQUOTE] @ ''hidden'' @ [DQUOTE]) \<noteq> None
     \<or> find_str tag ''display:none'' \<noteq> None
     \<or> find_str tag ''visibility:hidden'' \<noteq> None
     \<or> find_str tag ''opacity:0'' \<noteq> None
     \<or> find_str tag ''Details-content--hidden-not-important'' \<noteq> None"

subsection \<open>The output buffer\<close>

text \<open>\<^verbatim>\<open>inline void UpdateMdLen() { md_len_ = md_.length(); }\<close>\<close>

definition UpdateMdLen :: "Converter \<Rightarrow> Converter" where
  "UpdateMdLen c = c\<lparr>md_len := length (md c)\<rparr>"

text \<open>
  Modelled from the spec: the body of \<^verbatim>\<open>UpdatePrevChFromMd\<close> is not in the header. The
  spec's Output Buffer "exposes the last two characters written"; the function re-reads
  them from the buffer, and leaves a field alone when the buffer is too short to hold that
  character.
\<close>

definition UpdatePrevChFromMd :: "Converter \<Rightarrow> Converter" where
  "UpdatePrevChFromMd c =
     (if md c = [] then c
      else c\<lparr>prev_ch_in_md := last (md c),
             prev_prev_ch_in_md :=
               (if 1 < length (md c) then md c ! (length (md c) - 2) else prev_prev_ch_in_md c)\<rparr>)"

text \<open>
  Modelled from the spec: the one way the append and shorten operations write the buffer
  ("mutated only through controlled append/shorten operations so that last-two-characters
  tracking stays consistent"; "a sequence of characters plus its length"). The new text is
  stored, \<open>md_len_\<close> and the length of the current line are recomputed, and the last two
  characters are re-read.
\<close>

definition write_md :: "Converter \<Rightarrow> string \<Rightarrow> Converter" where
  "write_md c m =
     UpdatePrevChFromMd
       (UpdateMdLen (c\<lparr>md := m, chars_in_curr_line := length (takeWhile (\<lambda>ch. ch \<noteq> NL) (rev m))\<rparr>))"

text \<open>Modelled from the spec: \<^verbatim>\<open>AppendToMd(char)\<close> and \<^verbatim>\<open>AppendToMd(const char*)\<close>
  ("append a char / a char* to the Markdown"); their bodies are not in the header.\<close>

definition AppendToMd_char :: "Converter \<Rightarrow> char \<Rightarrow> Converter" where
  "AppendToMd_char c ch = write_md c (md c @ [ch])"

definition AppendToMd :: "Converter \<Rightarrow> string \<Rightarrow> Converter" where
  "AppendToMd c str = write_md c (md c @ str)"

text \<open>\<^verbatim>\<open>inline Converter* AppendToMd(const std::string &s) { return AppendToMd(s.c_str()); }\<close>\<close>

definition AppendToMd_string :: "Converter \<Rightarrow> string \<Rightarrow> Converter" where
  "AppendToMd_string c s = AppendToMd c (c_str s)"

text \<open>
  Modelled from the spec: \<^verbatim>\<open>AppendBlank\<close>, from its documentation in the header: "appends
  ' ' if md does not end with '*' [and] md does not end with '\n'".
\<close>

definition AppendBlank :: "Converter \<Rightarrow> Converter" where
  "AppendBlank c =
     (if md c \<noteq> [] \<and> (last (md c) = CHR ''*'' \<or> last (md c) = NL) then c
      else AppendToMd_char c CHR '' '')"

text \<open>Modelled from the spec: \<^verbatim>\<open>ShortenMarkdown(int chars = 1)\<close>, the buffer's shorten
  operation: the last \<open>chars\<close> characters are removed.\<close>

definition ShortenMarkdown :: "Converter \<Rightarrow> nat \<Rightarrow> Converter" where
  "ShortenMarkdown c chars = write_md c (take (length (md c) - chars) (md c))"

text \<open>
  Modelled from the spec: \<^verbatim>\<open>LTrim\<close>, \<^verbatim>\<open>RTrim(s, trim_only_blank)\<close> and \<^verbatim>\<open>Trim\<close>
  ("trim from start / from end / from both ends (in place)"). They work on the string
  they are given; with \<open>trim_only_blank\<close> only blanks and tabs are removed.
\<close>

definition LTrim :: "string \<Rightarrow> string" where
  "LTrim s = dropWhile isspace s"

definition RTrim :: "string \<Rightarrow> bool \<Rightarrow> string" where
  "RTrim s trim_only_blank =
     rev (dropWhile (if trim_only_blank then isblank else isspace) (rev s))"

definition Trim :: "string \<Rightarrow> string" where
  "Trim s = RTrim (LTrim s) False"

text \<open>
  Modelled from the spec: \<^verbatim>\<open>ExtractAttributeFromTagLeftOf\<close> ("scanning the original HTML
  from the tag's start offset to the tag's end offset and locating the named attribute";
  "requested attribute absent: yields an empty value"). The tag text is the part of
  \<open>html_\<close> between \<open>offset_lt_\<close> and \<open>index_ch_in_html_\<close>; the value is what stands between
  the double quotes after \<open>attr=\<close>.
\<close>

definition ExtractAttributeFromTagLeftOf :: "Converter \<Rightarrow> string \<Rightarrow> string" where
  "ExtractAttributeFromTagLeftOf c attr =
     (let tag = take (unat (index_ch_in_html c) - unat (offset_lt c))
                  (drop (unat (offset_lt c)) (html c))
      in case find_str tag (attr @ [CHR ''='', DQUOTE]) of
           None \<Rightarrow> []
         | Some p \<Rightarrow>
             (let v = drop (p + length attr + 2) tag
              in if DQUOTE \<in> set v then takeWhile (\<lambda>ch. ch \<noteq> DQUOTE) v else []))"

text \<open>
  Modelled from the spec: \<^verbatim>\<open>ReplacePreviousSpaceInLineByNewline\<close>, from its comment in the
  header: "replace previous space (if any) in current markdown line by newline". The
  handler that calls it drops the boolean it returns.
\<close>

definition ReplacePreviousSpaceInLineByNewline :: "Converter \<Rightarrow> Converter" where
  "ReplacePreviousSpaceInLineByNewline c =
     (let line = takeWhile (\<lambda>ch. ch \<noteq> NL) (rev (md c))
      in if CHR '' '' \<in> set line
         then write_md c
                ((md c)[length (md c) - Suc (length (takeWhile (\<lambda>ch. ch \<noteq> CHR '' '') line)) := NL])
         else c)"

text \<open>Modelled from the spec: \<^verbatim>\<open>TurnLineIntoHeader1\<close> ("promote the just-written line to a
  level-1 heading").\<close>

definition TurnLineIntoHeader1 :: "Converter \<Rightarrow> Converter" where
  "TurnLineIntoHeader1 c =
     (let pos = length (md c) - length (takeWhile (\<lambda>ch. ch \<noteq> NL) (rev (md c)))
      in write_md c (take pos (md c) @ ''# '' @ drop pos (md c) @ [NL]))"

subsection \<open>The tag handlers\<close>

text \<open>
  Each \<^verbatim>\<open>struct Tag...\<close> of the header becomes two functions on the converter, named after
  the struct and the method. Handlers that call \<^verbatim>\<open>utils::Repeat\<close> return an option:
  \<open>None\<close> when that loop never returns.
\<close>

definition TagIgnored_OnHasLeftOpeningTag :: "Converter \<Rightarrow> Converter" where
  "TagIgnored_OnHasLeftOpeningTag c = c"

definition TagIgnored_OnHasLeftClosingTag :: "Converter \<Rightarrow> Converter" where
  "TagIgnored_OnHasLeftClosingTag c = c"

definition TagAnchor_OnHasLeftOpeningTag :: "Converter \<Rightarrow> Converter" where
  "TagAnchor_OnHasLeftOpeningTag c =
     (if IsInIgnoredTag c then c
      else
        let c1 = (if prev_tag c = kTagImg then AppendToMd_char c NL else c);
            c2 = c1\<lparr>current_title := ExtractAttributeFromTagLeftOf c1 kAttributeTitle\<rparr>;
            c3 = AppendToMd (AppendBlank (c2\<lparr>md := RTrim (md c2) True\<rparr>)) ''[''
        in c3\<lparr>current_href := ExtractAttributeFromTagLeftOf c3 kAttributeHref\<rparr>)"

definition TagAnchor_OnHasLeftClosingTag :: "Converter \<Rightarrow> Converter" where
  "TagAnchor_OnHasLeftClosingTag c =
     (if IsInIgnoredTag c then c
      else
        let c1 = (if prev_ch_in_md c = CHR '' '' then ShortenMarkdown c 1 else c)
        in if prev_ch_in_md c1 = CHR ''['' then ShortenMarkdown c1 1
           else
             let c2 = AppendToMd_string (AppendToMd c1 '']('') (current_href c1);
                 c3 = (if current_title c2 \<noteq> []
                       then AppendToMd_char
                              (AppendToMd_string (AppendToMd c2 ([CHR '' '', DQUOTE])) (current_title c2))
                              DQUOTE
                       else c2);
                 c4 = AppendToMd c3 '') ''
             in if prev_tag c4 = kTagImg then AppendToMd_char c4 NL else c4)"

definition TagBold_OnHasLeftOpeningTag :: "Converter \<Rightarrow> Converter" where
  "TagBold_OnHasLeftOpeningTag c =
     AppendToMd (if prev_ch_in_md c \<noteq> CHR '' '' then AppendBlank c else c) ''**''"

definition TagBold_OnHasLeftClosingTag :: "Converter \<Rightarrow> Converter" where
  "TagBold_OnHasLeftClosingTag c =
     AppendToMd (if prev_ch_in_md c = CHR '' '' then ShortenMarkdown c 1 else c) ''** ''"

definition TagItalic_OnHasLeftOpeningTag :: "Converter \<Rightarrow> Converter" where
  "TagItalic_OnHasLeftOpeningTag c =
     AppendToMd_char (if prev_ch_in_md c \<noteq> CHR '' '' then AppendBlank c else c) CHR ''*''"

definition TagItalic_OnHasLeftClosingTag :: "Converter \<Rightarrow> Converter" where
  "TagItalic_OnHasLeftClosingTag c =
     AppendToMd (if prev_ch_in_md c = CHR '' '' then ShortenMarkdown c 1 else c) ''* ''"

definition TagUnderline_OnHasLeftOpeningTag :: "Converter \<Rightarrow> Converter" where
  "TagUnderline_OnHasLeftOpeningTag c =
     AppendToMd
       (if prev_prev_ch_in_md c = CHR '' '' \<and> prev_ch_in_md c = CHR '' ''
        then ShortenMarkdown c 1 else c)
       ''<u>''"

definition TagUnderline_OnHasLeftClosingTag :: "Converter \<Rightarrow> Converter" where
  "TagUnderline_OnHasLeftClosingTag c =
     AppendToMd (if prev_ch_in_md c = CHR '' '' then ShortenMarkdown c 1 else c) ''</u>''"

definition TagStrikethrought_OnHasLeftOpeningTag :: "Converter \<Rightarrow> Converter" where
  "TagStrikethrought_OnHasLeftOpeningTag c =
     AppendToMd_char (if prev_ch_in_md c \<noteq> CHR '' '' then AppendBlank c else c) CHR ''~''"

definition TagStrikethrought_OnHasLeftClosingTag :: "Converter \<Rightarrow> Converter" where
  "TagStrikethrought_OnHasLeftClosingTag c =
     AppendToMd (if prev_ch_in_md c = CHR '' '' then ShortenMarkdown c 1 else c) ''~ ''"

definition TagBreak_OnHasLeftOpeningTag :: "Converter \<Rightarrow> Converter option" where
  "TagBreak_OnHasLeftOpeningTag c =
     (let c1 = (if is_in_table c
                then AppendToMd
                       (if prev_ch_in_md c = CHR '' '' then ShortenMarkdown c 1 else c) ''<br>''
                else if 0 < md_len c then AppendToMd c [CHR '' '', CHR '' '', NL]
                else c)
      in map_option (AppendToMd_string c1)
           (Repeat ''> '' (size_t_of_short (index_blockquote c1))))"

definition TagBreak_OnHasLeftClosingTag :: "Converter \<Rightarrow> Converter" where
  "TagBreak_OnHasLeftClosingTag c = c"

definition TagDiv_OnHasLeftOpeningTag :: "Converter \<Rightarrow> Converter" where
  "TagDiv_OnHasLeftOpeningTag c =
     (let c1 = (if prev_ch_in_md c \<noteq> NL then AppendToMd_char c NL else c)
      in if prev_prev_ch_in_md c1 \<noteq> NL then AppendToMd_char c1 NL else c1)"

definition TagDiv_OnHasLeftClosingTag :: "Converter \<Rightarrow> Converter" where
  "TagDiv_OnHasLeftClosingTag c = c"

text \<open>\<^verbatim>\<open>TagHeader1\<close> to \<^verbatim>\<open>TagHeader6\<close> differ only in the number of \<^verbatim>\<open>#\<close> they emit.\<close>

definition TagHeader_OnHasLeftOpeningTag :: "nat \<Rightarrow> Converter \<Rightarrow> Converter" where
  "TagHeader_OnHasLeftOpeningTag level c =
     AppendToMd c ([NL] @ replicate level CHR ''#'' @ '' '')"

definition TagHeader_OnHasLeftClosingTag :: "Converter \<Rightarrow> Converter" where
  "TagHeader_OnHasLeftClosingTag c =
     (if prev_prev_ch_in_md c \<noteq> CHR '' '' then AppendToMd_char c NL else c)"

definition TagListItem_OnHasLeftOpeningTag :: "Converter \<Rightarrow> Converter" where
  "TagListItem_OnHasLeftOpeningTag c =
     (if is_in_table c then c
      else if \<not> is_in_ordered_list c then AppendToMd c ''- ''
      else
        let c1 = c\<lparr>index_li := index_li c + 1\<rparr>;
            num = to_string (sint (index_li c1)) @ ''. ''
        in AppendToMd_string c1 num)"

definition TagListItem_OnHasLeftClosingTag :: "Converter \<Rightarrow> Converter" where
  "TagListItem_OnHasLeftClosingTag c =
     (if is_in_table c then c
      else if prev_ch_in_md c \<noteq> NL then AppendToMd_char c NL else c)"

definition TagOption_OnHasLeftOpeningTag :: "Converter \<Rightarrow> Converter" where
  "TagOption_OnHasLeftOpeningTag c = c"

definition TagOption_OnHasLeftClosingTag :: "Converter \<Rightarrow> Converter" where
  "TagOption_OnHasLeftClosingTag c =
     (if 0 < md_len c then AppendToMd c [CHR '' '', CHR '' '', NL] else c)"

definition TagOrderedList_OnHasLeftOpeningTag :: "Converter \<Rightarrow> Converter" where
  "TagOrderedList_OnHasLeftOpeningTag c =
     (if is_in_table c then c
      else
        AppendToMd_char
          (ReplacePreviousSpaceInLineByNewline
             (c\<lparr>is_in_list := True, is_in_ordered_list := True, index_li := 0\<rparr>))
          NL)"

definition TagOrderedList_OnHasLeftClosingTag :: "Converter \<Rightarrow> Converter" where
  "TagOrderedList_OnHasLeftClosingTag c =
     (if is_in_table c then c
      else AppendToMd_char (c\<lparr>is_in_list := False, is_in_ordered_list := False\<rparr>) NL)"

definition TagParagraph_OnHasLeftOpeningTag :: "Converter \<Rightarrow> Converter option" where
  "TagParagraph_OnHasLeftOpeningTag c =
     (let c1 = (if is_in_list c \<and> prev_tag c = kTagParagraph then AppendToMd c [NL, TAB]
                else if \<not> is_in_list c \<and> index_blockquote c = 0 then AppendToMd_char c NL
                else c)
      in if 0 < sint (index_blockquote c1)
         then
           (let c2 = AppendToMd c1 [CHR ''>'', CHR '' '', NL]
            in map_option (AppendToMd_string c2)
                 (Repeat ''> '' (size_t_of_short (index_blockquote c2))))
         else Some c1)"

definition TagParagraph_OnHasLeftClosingTag :: "Converter \<Rightarrow> Converter" where
  "TagParagraph_OnHasLeftClosingTag c =
     (if md c \<noteq> [] then AppendToMd_char c NL else c)"

definition TagPre_OnHasLeftOpeningTag :: "Converter \<Rightarrow> Converter option" where
  "TagPre_OnHasLeftOpeningTag c =
     (let c0 = c\<lparr>is_in_pre := True\<rparr>;
          c1 = (if prev_ch_in_md c0 \<noteq> NL then AppendToMd c0 [NL] else c0);
          c2 = (if prev_prev_ch_in_md c1 \<noteq> NL then AppendToMd c1 [NL] else c1);
          r3 = (if index_blockquote c2 \<noteq> 0
                then map_option (\<lambda>r. ShortenMarkdown (AppendToMd_string c2 r) 1)
                       (Repeat ''> '' (size_t_of_short (index_blockquote c2)))
                else Some c2)
      in map_option
           (\<lambda>c3.
              let c4 = (if is_in_list c3 \<and> prev_tag c3 \<noteq> kTagParagraph
                        then ShortenMarkdown c3 2 else c3)
              in if is_in_list c4 \<or> index_blockquote c4 \<noteq> 0
                 then AppendToMd c4 [TAB, TAB]
                 else AppendToMd c4 ''```'')
           r3)"

definition TagPre_OnHasLeftClosingTag :: "Converter \<Rightarrow> Converter" where
  "TagPre_OnHasLeftClosingTag c =
     (let c0 = c\<lparr>is_in_pre := False\<rparr>
      in if \<not> is_in_list c0 \<and> index_blockquote c0 = 0
         then AppendToMd c0 (''```'' @ [NL])
         else c0)"

definition TagCode_OnHasLeftOpeningTag :: "Converter \<Rightarrow> Converter" where
  "TagCode_OnHasLeftOpeningTag c =
     (let c0 = c\<lparr>is_in_code := True\<rparr>
      in if is_in_pre c0
         then
           (let c1 = (if prev_ch_in_md c0 = CHR '' '' then ShortenMarkdown c0 1 else c0)
            in if is_in_list c1 \<or> index_blockquote c1 \<noteq> 0 then c1
               else
                 let code = ExtractAttributeFromTagLeftOf c1 kAttributeClass;
                     c2 = (if code \<noteq> [] then AppendToMd_string c1 (drop 9 code) else c1)
                 in AppendToMd_char c2 NL)
         else AppendToMd_char c0 CHR ''`'')"

definition TagCode_OnHasLeftClosingTag :: "Converter \<Rightarrow> Converter" where
  "TagCode_OnHasLeftClosingTag c =
     (let c0 = c\<lparr>is_in_code := False\<rparr>
      in if is_in_pre c0 then c0
         else AppendToMd
                (if prev_ch_in_md c0 = CHR '' '' then ShortenMarkdown c0 1 else c0) ''` '')"

definition TagSpan_OnHasLeftOpeningTag :: "Converter \<Rightarrow> Converter" where
  "TagSpan_OnHasLeftOpeningTag c = c"

definition TagSpan_OnHasLeftClosingTag :: "Converter \<Rightarrow> Converter" where
  "TagSpan_OnHasLeftClosingTag c =
     (if prev_ch_in_md c \<noteq> CHR '' '' \<and> 0 < unat (char_index_in_tag_content c)
      then AppendBlank c else c)"

definition TagTitle_OnHasLeftOpeningTag :: "Converter \<Rightarrow> Converter" where
  "TagTitle_OnHasLeftOpeningTag c = c"

definition TagTitle_OnHasLeftClosingTag :: "Converter \<Rightarrow> Converter" where
  "TagTitle_OnHasLeftClosingTag c = TurnLineIntoHeader1 c"

definition TagUnorderedList_OnHasLeftOpeningTag :: "Converter \<Rightarrow> Converter" where
  "TagUnorderedList_OnHasLeftOpeningTag c =
     (if is_in_list c \<or> is_in_table c then c
      else AppendToMd_char (c\<lparr>is_in_list := True\<rparr>) NL)"

definition TagUnorderedList_OnHasLeftClosingTag :: "Converter \<Rightarrow> Converter" where
  "TagUnorderedList_OnHasLeftClosingTag c =
     (if is_in_table c then c
      else
        let c1 = c\<lparr>is_in_list := False\<rparr>;
            c2 = (if (prev_prev_ch_in_md c1 = CHR ''*'' \<or> prev_prev_ch_in_md c1 = CHR ''-''
                      \<or> prev_prev_ch_in_md c1 = CHR ''+'' \<or> prev_prev_ch_in_md c1 = CHR ''.''
                      \<or> prev_prev_ch_in_md c1 = CHR '')'')
                     \<and> prev_tag c1 \<noteq> kTagParagraph
                  then c1\<lparr>is_in_list := True\<rparr> else c1)
        in if prev_prev_ch_in_md c2 = NL \<and> prev_ch_in_md c2 = NL then ShortenMarkdown c2 1
           else if prev_ch_in_md c2 \<noteq> NL then AppendToMd_char c2 NL
           else c2)"

definition TagImage_OnHasLeftOpeningTag :: "Converter \<Rightarrow> Converter" where
  "TagImage_OnHasLeftOpeningTag c =
     (let c1 = (if prev_tag c \<noteq> kTagAnchor \<and> prev_ch_in_md c \<noteq> NL
                then AppendToMd_char c NL else c);
          c2 = AppendToMd c1 ''!['';
          c3 = AppendToMd_string c2 (ExtractAttributeFromTagLeftOf c2 kAttributeAlt);
          c4 = AppendToMd c3 '']('';
          c5 = AppendToMd_string c4 (ExtractAttributeFromTagLeftOf c4 kAttributeSrc)
      in AppendToMd c5 '')'')"

definition TagImage_OnHasLeftClosingTag :: "Converter \<Rightarrow> Converter" where
  "TagImage_OnHasLeftClosingTag c =
     (if prev_tag c = kTagAnchor then AppendToMd_char c NL else c)"

definition TagSeperator_OnHasLeftOpeningTag :: "Converter \<Rightarrow> Converter" where
  "TagSeperator_OnHasLeftOpeningTag c = AppendToMd c ([NL] @ ''---'' @ [NL])"

definition TagSeperator_OnHasLeftClosingTag :: "Converter \<Rightarrow> Converter" where
  "TagSeperator_OnHasLeftClosingTag c = c"

definition TagTable_OnHasLeftOpeningTag :: "Converter \<Rightarrow> Converter" where
  "TagTable_OnHasLeftOpeningTag c = AppendToMd_char (c\<lparr>is_in_table := True\<rparr>) NL"

definition TagTable_OnHasLeftClosingTag :: "Converter \<Rightarrow> Converter" where
  "TagTable_OnHasLeftClosingTag c = AppendToMd_char (c\<lparr>is_in_table := False\<rparr>) NL"

definition TagTableRow_OnHasLeftOpeningTag :: "Converter \<Rightarrow> Converter" where
  "TagTableRow_OnHasLeftOpeningTag c = AppendToMd_char c NL"

definition TagTableRow_OnHasLeftClosingTag :: "Converter \<Rightarrow> Converter" where
  "TagTableRow_OnHasLeftClosingTag c =
     (let c1 = UpdatePrevChFromMd c;
          c2 = (if prev_ch_in_md c1 = CHR ''|'' then AppendToMd_char c1 NL
                else AppendToMd_char c1 CHR ''|'')
      in if tableLine c2 \<noteq> []
         then
           (let c3 = (if prev_ch_in_md c2 \<noteq> NL then AppendToMd_char c2 NL else c2);
                c4 = c3\<lparr>tableLine := tableLine c3 @ [CHR ''|'', NL]\<rparr>;
                c5 = AppendToMd_string c4 (tableLine c4)
            in c5\<lparr>tableLine := []\<rparr>)
         else c2)"

definition TagTableHeader_OnHasLeftOpeningTag :: "Converter \<Rightarrow> Converter" where
  "TagTableHeader_OnHasLeftOpeningTag c =
     (let align = ExtractAttributeFromTagLeftOf c kAttrinuteAlign;
          line0 = ''| '';
          line1 = (if align = ''left'' \<or> align = ''center'' then line0 @ [CHR '':''] else line0);
          line2 = line1 @ [CHR ''-''];
          line3 = (if align = ''right'' \<or> align = ''center'' then line2 @ '': ''
                   else line2 @ [CHR '' ''])
      in AppendToMd (c\<lparr>tableLine := tableLine c @ line3\<rparr>) ''| '')"

definition TagTableHeader_OnHasLeftClosingTag :: "Converter \<Rightarrow> Converter" where
  "TagTableHeader_OnHasLeftClosingTag c = c"

definition TagTableData_OnHasLeftOpeningTag :: "Converter \<Rightarrow> Converter" where
  "TagTableData_OnHasLeftOpeningTag c =
     (if prev_prev_ch_in_md c \<noteq> CHR ''|'' then AppendToMd c ''| '' else c)"

definition TagTableData_OnHasLeftClosingTag :: "Converter \<Rightarrow> Converter" where
  "TagTableData_OnHasLeftClosingTag c = c"

definition TagBlockquote_OnHasLeftOpeningTag :: "Converter \<Rightarrow> Converter" where
  "TagBlockquote_OnHasLeftOpeningTag c =
     (let c1 = c\<lparr>index_blockquote := index_blockquote c + 1\<rparr>
      in if index_blockquote c1 = 1 then AppendToMd_char c1 NL else c1)"

definition TagBlockquote_OnHasLeftClosingTag :: "Converter \<Rightarrow> Converter" where
  "TagBlockquote_OnHasLeftClosingTag c = c\<lparr>index_blockquote := index_blockquote c - 1\<rparr>"

section \<open>The normalizer\<close>

text \<open>
  The header declares \<^verbatim>\<open>utils::Split\<close>, \<^verbatim>\<open>TidyAllLines\<close> ("1. trim all lines 2. reduce
  consecutive newlines to maximum 3") and \<^verbatim>\<open>CleanUpMarkdown\<close>; none has a body in the
  sources.
\<close>

text \<open>Modelled from the spec: \<^verbatim>\<open>utils::Split\<close> ("split given std::string by given character
  delimiter into vector of std::strings"): the pieces between the delimiters, so a text
  with \<open>n\<close> delimiters has \<open>n + 1\<close> pieces.\<close>

fun Split :: "string \<Rightarrow> char \<Rightarrow> string list" where
  "Split [] d = [[]]"
| "Split (ch # cs) d =
     (if ch = d then [] # Split cs d
      else (case Split cs d of [] \<Rightarrow> [[ch]] | p # ps \<Rightarrow> (ch # p) # ps))"

text \<open>The lines put together again, a newline between two lines.\<close>

fun join_lines :: "string list \<Rightarrow> string" where
  "join_lines [] = []"
| "join_lines [l] = l"
| "join_lines (l # m # ls) = l @ NL # join_lines (m # ls)"

text \<open>Modelled from the spec: step (b) of the normalizer, "collapse 3+ consecutive blank
  lines down to at most 2". \<open>n\<close> counts the blank lines kept since the last non-blank
  line; a third blank line in a row is dropped.\<close>

fun collapse_blank :: "nat \<Rightarrow> string list \<Rightarrow> string list" where
  "collapse_blank n [] = []"
| "collapse_blank n (l # ls) =
     (if l = [] then (if n < 2 then [] # collapse_blank (Suc n) ls else collapse_blank n ls)
      else l # collapse_blank 0 ls)"

text \<open>Modelled from the spec: \<^verbatim>\<open>TidyAllLines\<close>, steps (a) and (b) of the normalizer: "trim
  leading/trailing whitespace on every line", then collapse the runs of blank lines.\<close>

definition TidyAllLines :: "string \<Rightarrow> string" where
  "TidyAllLines str = join_lines (collapse_blank 0 (map Trim (Split str NL)))"

text \<open>
  Modelled from the spec: \<^verbatim>\<open>CleanUpMarkdown\<close>, the normalizer: steps (a) and (b), then
  (c) "trim the whole document". The spec's overview also names a fold of "a
  trailing-space-before-newline artifact"; after step (a) no line ends in a space, so
  that fold finds nothing to do and is not a step of its own here.
  \<open>CleanUpMarkdown_text\<close> is the rewriting of the text, \<open>CleanUpMarkdown\<close> stores its result
  in the buffer.
\<close>

definition CleanUpMarkdown_text :: "string \<Rightarrow> string" where
  "CleanUpMarkdown_text m = Trim (TidyAllLines m)"

definition CleanUpMarkdown :: "Converter \<Rightarrow> Converter" where
  "CleanUpMarkdown c = write_md c (CleanUpMarkdown_text (md c))"

section \<open>The scanner\<close>

text \<open>
  The header declares \<^verbatim>\<open>Convert2Md\<close>, \<^verbatim>\<open>OnHasEnteredTag\<close>, \<^verbatim>\<open>ParseCharInTag\<close>,
  \<^verbatim>\<open>OnHasLeftTag\<close>, \<^verbatim>\<open>ParseCharInTagContent\<close>, \<^verbatim>\<open>ok\<close>, the constructor that fills the
  dispatch table \<^verbatim>\<open>tags_\<close>, and \<^verbatim>\<open>PrepareHtml\<close>; none has a body in the sources. The
  scanner below follows section 4.1 of the spec sentence by sentence. Neither the header
  nor the spec says what \<^verbatim>\<open>PrepareHtml\<close> does: the input is scanned as it is. The spec
  names "indentation rules for list/blockquote/pre context" for text without giving them,
  and names hidden-attribute patterns (\<^verbatim>\<open>TagContainsAttributesToHide\<close>) without a
  transition for them: neither is part of this scanner.
\<close>

text \<open>\<^verbatim>\<open>tolower\<close> of the C locale.\<close>

definition tolower :: "char \<Rightarrow> char" where
  "tolower ch =
     (case map_of (zip ''ABCDEFGHIJKLMNOPQRSTUVWXYZ'' ''abcdefghijklmnopqrstuvwxyz'') ch of
        Some l \<Rightarrow> l
      | None \<Rightarrow> ch)"

text \<open>The handler structs of the header, one constructor each (\<^verbatim>\<open>struct Tag\<close> is their
  abstract base).\<close>

datatype Tag =
    TagIgnored | TagAnchor | TagBold | TagItalic | TagUnderline | TagStrikethrought
  | TagBreak | TagDiv | TagHeader1 | TagHeader2 | TagHeader3 | TagHeader4 | TagHeader5
  | TagHeader6 | TagListItem | TagOption | TagOrderedList | TagParagraph | TagPre | TagCode
  | TagSpan | TagTitle | TagUnorderedList | TagImage | TagSeperator | TagTable | TagTableRow
  | TagTableHeader | TagTableData | TagBlockquote

text \<open>
  Modelled from the spec: the dispatch table \<^verbatim>\<open>tags_\<close> ("a fixed mapping from tag name to
  a handler; unknown tags fall back to a no-op (ignored) handler"). The names are the
  \<^verbatim>\<open>kTag...\<close> constants of the header, each mapped to the handler struct of the same
  name; \<^verbatim>\<open>cite\<close> and \<^verbatim>\<open>dfn\<close> stand among the header's text-format names and share the
  handler of \<^verbatim>\<open>em\<close> and \<^verbatim>\<open>i\<close>; \<^verbatim>\<open>head\<close>, \<^verbatim>\<open>link\<close>, \<^verbatim>\<open>meta\<close>, \<^verbatim>\<open>nav\<close>,
  \<^verbatim>\<open>noscript\<close>, \<^verbatim>\<open>script\<close>, \<^verbatim>\<open>style\<close> and \<^verbatim>\<open>template\<close> have the ignored handler, as
  every unknown name has.
\<close>

definition tags :: "string \<Rightarrow> Tag" where
  "tags name =
     (if name = ''a'' then TagAnchor
      else if name = ''b'' \<or> name = ''strong'' then TagBold
      else if name = ''em'' \<or> name = ''i'' \<or> name = ''cite'' \<or> name = ''dfn'' then TagItalic
      else if name = ''u'' then TagUnderline
      else if name = ''del'' \<or> name = ''s'' then TagStrikethrought
      else if name = ''br'' then TagBreak
      else if name = ''div'' then TagDiv
      else if name = ''h1'' then TagHeader1
      else if name = ''h2'' then TagHeader2
      else if name = ''h3'' then TagHeader3
      else if name = ''h4'' then TagHeader4
      else if name = ''h5'' then TagHeader5
      else if name = ''h6'' then TagHeader6
      else if name = ''li'' then TagListItem
      else if name = ''option'' then TagOption
      else if name = ''ol'' then TagOrderedList
      else if name = ''p'' then TagParagraph
      else if name = ''pre'' then TagPre
      else if name = ''code'' then TagCode
      else if name = ''span'' then TagSpan
      else if name = ''title'' then TagTitle
      else if name = ''ul'' then TagUnorderedList
      else if name = ''img'' then TagImage
      else if name = ''hr'' then TagSeperator
      else if name = ''table'' then TagTable
      else if name = ''tr'' then TagTableRow
      else if name = ''th'' then TagTableHeader
      else if name = ''td'' then TagTableData
      else if name = ''blockquote'' then TagBlockquote
      else TagIgnored)"

text \<open>The virtual calls \<^verbatim>\<open>tag->OnHasLeftOpeningTag(this)\<close> and
  \<^verbatim>\<open>tag->OnHasLeftClosingTag(this)\<close>.\<close>

fun OnHasLeftOpeningTag :: "Tag \<Rightarrow> Converter \<Rightarrow> Converter option" where
  "OnHasLeftOpeningTag TagIgnored c = Some (TagIgnored_OnHasLeftOpeningTag c)"
| "OnHasLeftOpeningTag TagAnchor c = Some (TagAnchor_OnHasLeftOpeningTag c)"
| "OnHasLeftOpeningTag TagBold c = Some (TagBold_OnHasLeftOpeningTag c)"
| "OnHasLeftOpeningTag TagItalic c = Some (TagItalic_OnHasLeftOpeningTag c)"
| "OnHasLeftOpeningTag TagUnderline c = Some (TagUnderline_OnHasLeftOpeningTag c)"
| "OnHasLeftOpeningTag TagStrikethrought c = Some (TagStrikethrought_OnHasLeftOpeningTag c)"
| "OnHasLeftOpeningTag TagBreak c = TagBreak_OnHasLeftOpeningTag c"
| "OnHasLeftOpeningTag TagDiv c = Some (TagDiv_OnHasLeftOpeningTag c)"
| "OnHasLeftOpeningTag TagHeader1 c = Some (TagHeader_OnHasLeftOpeningTag 1 c)"
| "OnHasLeftOpeningTag TagHeader2 c = Some (TagHeader_OnHasLeftOpeningTag 2 c)"
| "OnHasLeftOpeningTag TagHeader3 c = Some (TagHeader_OnHasLeftOpeningTag 3 c)"
| "OnHasLeftOpeningTag TagHeader4 c = Some (TagHeader_OnHasLeftOpeningTag 4 c)"
| "OnHasLeftOpeningTag TagHeader5 c = Some (TagHeader_OnHasLeftOpeningTag 5 c)"
| "OnHasLeftOpeningTag TagHeader6 c = Some (TagHeader_OnHasLeftOpeningTag 6 c)"
| "OnHasLeftOpeningTag TagListItem c = Some (TagListItem_OnHasLeftOpeningTag c)"
| "OnHasLeftOpeningTag TagOption c = Some (TagOption_OnHasLeftOpeningTag c)"
| "OnHasLeftOpeningTag TagOrderedList c = Some (TagOrderedList_OnHasLeftOpeningTag c)"
| "OnHasLeftOpeningTag TagParagraph c = TagParagraph_OnHasLeftOpeningTag c"
| "OnHasLeftOpeningTag TagPre c = TagPre_OnHasLeftOpeningTag c"
| "OnHasLeftOpeningTag TagCode c = Some (TagCode_OnHasLeftOpeningTag c)"
| "OnHasLeftOpeningTag TagSpan c = Some (TagSpan_OnHasLeftOpeningTag c)"
| "OnHasLeftOpeningTag TagTitle c = Some (TagTitle_OnHasLeftOpeningTag c)"
| "OnHasLeftOpeningTag TagUnorderedList c = Some (TagUnorderedList_OnHasLeftOpeningTag c)"
| "OnHasLeftOpeningTag TagImage c = Some (TagImage_OnHasLeftOpeningTag c)"
| "OnHasLeftOpeningTag TagSeperator c = Some (TagSeperator_OnHasLeftOpeningTag c)"
| "OnHasLeftOpeningTag TagTable c = Some (TagTable_OnHasLeftOpeningTag c)"
| "OnHasLeftOpeningTag TagTableRow c = Some (TagTableRow_OnHasLeftOpeningTag c)"
| "OnHasLeftOpeningTag TagTableHeader c = Some (TagTableHeader_OnHasLeftOpeningTag c)"
| "OnHasLeftOpeningTag TagTableData c = Some (TagTableData_OnHasLeftOpeningTag c)"
| "OnHasLeftOpeningTag TagBlockquote c = Some (TagBlockquote_OnHasLeftOpeningTag c)"

fun OnHasLeftClosingTag :: "Tag \<Rightarrow> Converter \<Rightarrow> Converter" where
  "OnHasLeftClosingTag TagIgnored c = TagIgnored_OnHasLeftClosingTag c"
| "OnHasLeftClosingTag TagAnchor c = TagAnchor_OnHasLeftClosingTag c"
| "OnHasLeftClosingTag TagBold c = TagBold_OnHasLeftClosingTag c"
| "OnHasLeftClosingTag TagItalic c = TagItalic_OnHasLeftClosingTag c"
| "OnHasLeftClosingTag TagUnderline c = TagUnderline_OnHasLeftClosingTag c"
| "OnHasLeftClosingTag TagStrikethrought c = TagStrikethrought_OnHasLeftClosingTag c"
| "OnHasLeftClosingTag TagBreak c = TagBreak_OnHasLeftClosingTag c"
| "OnHasLeftClosingTag TagDiv c = TagDiv_OnHasLeftClosingTag c"
| "OnHasLeftClosingTag TagHeader1 c = TagHeader_OnHasLeftClosingTag c"
| "OnHasLeftClosingTag TagHeader2 c = TagHeader_OnHasLeftClosingTag c"
| "OnHasLeftClosingTag TagHeader3 c = TagHeader_OnHasLeftClosingTag c"
| "OnHasLeftClosingTag TagHeader4 c = TagHeader_OnHasLeftClosingTag c"
| "OnHasLeftClosingTag TagHeader5 c = TagHeader_OnHasLeftClosingTag c"
| "OnHasLeftClosingTag TagHeader6 c = TagHeader_OnHasLeftClosingTag c"
| "OnHasLeftClosingTag TagListItem c = TagListItem_OnHasLeftClosingTag c"
| "OnHasLeftClosingTag TagOption c = TagOption_OnHasLeftClosingTag c"
| "OnHasLeftClosingTag TagOrderedList c = TagOrderedList_OnHasLeftClosingTag c"
| "OnHasLeftClosingTag TagParagraph c = TagParagraph_OnHasLeftClosingTag c"
| "OnHasLeftClosingTag TagPre c = TagPre_OnHasLeftClosingTag c"
| "OnHasLeftClosingTag TagCode c = TagCode_OnHasLeftClosingTag c"
| "OnHasLeftClosingTag TagSpan c = TagSpan_OnHasLeftClosingTag c"
| "OnHasLeftClosingTag TagTitle c = TagTitle_OnHasLeftClosingTag c"
| "OnHasLeftClosingTag TagUnorderedList c = TagUnorderedList_OnHasLeftClosingTag c"
| "OnHasLeftClosingTag TagImage c = TagImage_OnHasLeftClosingTag c"
| "OnHasLeftClosingTag TagSeperator c = TagSeperator_OnHasLeftClosingTag c"
| "OnHasLeftClosingTag TagTable c = TagTable_OnHasLeftClosingTag c"
| "OnHasLeftClosingTag TagTableRow c = TagTableRow_OnHasLeftClosingTag c"
| "OnHasLeftClosingTag TagTableHeader c = TagTableHeader_OnHasLeftClosingTag c"
| "OnHasLeftClosingTag TagTableData c = TagTableData_OnHasLeftClosingTag c"
| "OnHasLeftClosingTag TagBlockquote c = TagBlockquote_OnHasLeftClosingTag c"

text \<open>Modelled from the spec: \<^verbatim>\<open>OnHasEnteredTag\<close> (current char \<^verbatim>\<open><\<close>): "enter InTag,
  remember offset, begin accumulating TagToken".\<close>

definition OnHasEnteredTag :: "Converter \<Rightarrow> Converter" where
  "OnHasEnteredTag c =
     c\<lparr>offset_lt := index_ch_in_html c, is_in_tag := True, is_closing_tag := False,
       current_tag := [], current_attribute := [], current_attribute_value := []\<rparr>"

text \<open>The name of a finished tag token: its text up to the first whitespace, lower-cased
  ("tag name (lower-cased)", "case-insensitive").\<close>

definition tag_name :: "string \<Rightarrow> string" where
  "tag_name t = map tolower (takeWhile (\<lambda>ch. \<not> isspace ch) t)"

text \<open>
  Modelled from the spec: \<^verbatim>\<open>OnHasLeftTag\<close> (current char \<^verbatim>\<open>>\<close>): "leave InTag: look up
  the finished TagToken's name in the Dispatch Table, update AncestryStack (push on open,
  pop and verify top-of-stack match on close; mismatch is tolerated, not fatal), then
  invoke the handler's open/close operation, then resume Text state". The pop removes the
  top entry whatever its name, and leaves an empty stack empty. \<open>prev_tag_\<close> is "the
  previously closed tag name": it is set after the closing handler has run. The count of
  characters written "since the tag opened" restarts at an opening tag.
\<close>

definition OnHasLeftTag :: "Converter \<Rightarrow> Converter option" where
  "OnHasLeftTag c =
     (let name = tag_name (current_tag c);
          c1 = c\<lparr>is_in_tag := False, current_tag := name\<rparr>
      in if is_closing_tag c1
         then Some ((OnHasLeftClosingTag (tags name) (c1\<lparr>dom_tags := butlast (dom_tags c1)\<rparr>))
                      \<lparr>prev_tag := name, is_closing_tag := False\<rparr>)
         else OnHasLeftOpeningTag (tags name)
                (c1\<lparr>dom_tags := dom_tags c1 @ [name], char_index_in_tag_content := 0\<rparr>))"

text \<open>
  Modelled from the spec: \<^verbatim>\<open>ParseCharInTag\<close>: "closing flag set if next char [after
  \<^verbatim>\<open><\<close>] is \<^verbatim>\<open>/\<close>"; "whitespace separates attribute name/value tokens; \<^verbatim>\<open>=\<close> begins a
  value; quote characters toggle InAttributeValue"; "\<^verbatim>\<open>>\<close> outside InAttributeValue:
  leave InTag". The text of the tag is accumulated in \<open>current_tag_\<close>, which is the
  argument \<^verbatim>\<open>TagContainsAttributesToHide\<close> searches.
\<close>

definition ParseCharInTag :: "Converter \<Rightarrow> char \<Rightarrow> Converter option" where
  "ParseCharInTag c ch =
     (if is_in_attribute_value c
      then (if ch = DQUOTE
            then Some (c\<lparr>is_in_attribute_value := False, current_tag := current_tag c @ [ch]\<rparr>)
            else Some (c\<lparr>current_tag := current_tag c @ [ch],
                        current_attribute_value := current_attribute_value c @ [ch]\<rparr>))
      else if ch = CHR ''>'' then OnHasLeftTag c
      else if ch = CHR ''/'' \<and> current_tag c = [] then Some (c\<lparr>is_closing_tag := True\<rparr>)
      else if ch = DQUOTE
      then Some (c\<lparr>is_in_attribute_value := True, current_tag := current_tag c @ [ch]\<rparr>)
      else if isspace ch
      then Some (c\<lparr>current_tag := current_tag c @ [ch], current_attribute := []\<rparr>)
      else if ch = CHR ''=''
      then Some (c\<lparr>current_tag := current_tag c @ [ch], current_attribute_value := []\<rparr>)
      else Some (c\<lparr>current_tag := current_tag c @ [ch],
                  current_attribute := current_attribute c @ [ch]\<rparr>))"

text \<open>
  Modelled from the spec: \<^verbatim>\<open>ParseCharInTagContent\<close>, the Text state: "if any ancestor in
  AncestryStack is an ignored tag [...] the character is dropped; otherwise the character
  is appended to the Output Buffer, subject to collapsing of consecutive blanks". The
  test for the ancestors is the header's \<^verbatim>\<open>IsInIgnoredTag\<close>. Inside \<^verbatim>\<open>pre\<close> and
  \<^verbatim>\<open>code\<close> every character is appended.
\<close>

definition ParseCharInTagContent :: "Converter \<Rightarrow> char \<Rightarrow> Converter" where
  "ParseCharInTagContent c ch =
     (if IsInIgnoredTag c then c\<lparr>prev_ch_in_html := ch\<rparr>
      else if \<not> is_in_pre c \<and> \<not> is_in_code c \<and> isblank ch \<and> md c \<noteq> []
              \<and> isblank (last (md c))
      then c\<lparr>prev_ch_in_html := ch\<rparr>
      else (AppendToMd_char c ch)
             \<lparr>prev_ch_in_html := ch,
              char_index_in_tag_content := char_index_in_tag_content c + 1\<rparr>)"

text \<open>
  Modelled from the spec: one round of the loop of \<^verbatim>\<open>Convert2Md\<close> ("consume the HTML
  input exactly once, character by character"): the cursor advances, "\<^verbatim>\<open><\<close> outside
  InAttributeValue: enter InTag", a character inside a tag goes to \<^verbatim>\<open>ParseCharInTag\<close>,
  any other to \<^verbatim>\<open>ParseCharInTagContent\<close>. The cursor is a \<^verbatim>\<open>uint16_t\<close> and wraps at
  \<open>2 ^ 16\<close>.
\<close>

definition Convert2Md_step :: "Converter \<Rightarrow> char \<Rightarrow> Converter option" where
  "Convert2Md_step c ch =
     (let c1 = c\<lparr>index_ch_in_html := index_ch_in_html c + 1\<rparr>
      in if ch = CHR ''<'' \<and> \<not> is_in_attribute_value c1 then Some (OnHasEnteredTag c1)
         else if is_in_tag c1 then ParseCharInTag c1 ch
         else Some (ParseCharInTagContent c1 ch))"

fun scan :: "Converter \<Rightarrow> string \<Rightarrow> Converter option" where
  "scan c [] = Some c"
| "scan c (ch # rest) =
     (case Convert2Md_step c ch of None \<Rightarrow> None | Some c' \<Rightarrow> scan c' rest)"

text \<open>Modelled from the spec: \<^verbatim>\<open>Convert2Md\<close>: the scan of the whole input, then the
  normalizer. \<open>None\<close>: a handler's \<^verbatim>\<open>Repeat\<close> loop did not return.\<close>

definition Convert2Md :: "string \<Rightarrow> Converter option" where
  "Convert2Md h = map_option CleanUpMarkdown (scan (Converter_init h) h)"

text \<open>Modelled from the spec: \<^verbatim>\<open>ok()\<close> ("reports whether the AncestryStack is empty
  after the scan completes"; the header: "returns false if there is a unclosed tag").\<close>

definition ok :: "Converter \<Rightarrow> bool" where
  "ok c \<longleftrightarrow> dom_tags c = []"

section \<open>Documents as token sequences\<close>

text \<open>
  To speak of "every opened tag is matched by a close tag", an input is read as a
  sequence of tokens: a text character, an opening tag (name and attribute text) or a
  closing tag. \<open>render\<close> writes the tokens out as HTML.
\<close>

datatype token = Text char | Open string string | Close string

fun render_token :: "token \<Rightarrow> string" where
  "render_token (Text ch) = [ch]"
| "render_token (Open n a) = ''<'' @ n @ a @ ''>''"
| "render_token (Close n) = ''</'' @ n @ ''>''"

definition render :: "token list \<Rightarrow> string" where
  "render ts = concat (map render_token ts)"





text \<open>\<^verbatim>\<open><div><p>text\<close> and \<^verbatim>\<open><div><p>text</p></div>\<close> as token sequences.\<close>

definition dangling_doc :: "token list" where
  "dangling_doc = [Open ''div'' [], Open ''p'' [], Text CHR ''t'', Text CHR ''e'',
                   Text CHR ''x'', Text CHR ''t'']"

definition closed_doc :: "token list" where
  "closed_doc = dangling_doc @ [Close ''p'', Close ''div'']"


section \<open>Notions used in the proofs\<close>







text \<open>A line with no whitespace at either end.\<close>

definition trimmed :: "string \<Rightarrow> bool" where
  "trimmed l \<longleftrightarrow> l = [] \<or> (\<not> isspace (hd l) \<and> \<not> isspace (last l))"

text \<open>The lines without the empty lines at the start and at the end.\<close>

definition strip_blank :: "string list \<Rightarrow> string list" where
  "strip_blank ls = rev (dropWhile (\<lambda>l. l = []) (rev (dropWhile (\<lambda>l. l = []) ls)))"

text \<open>No more than two empty lines in a row, \<open>n\<close> of them already seen.\<close>

fun run_ok :: "nat \<Rightarrow> string list \<Rightarrow> bool" where
  "run_ok n [] = True"
| "run_ok n (l # ls) = (if l = [] then n < 2 \<and> run_ok (Suc n) ls else run_ok 0 ls)"

text \<open>A text that steps (a) and (b) of the normalizer leave as it is: no line has
  whitespace at its ends, and there are no three blank lines in a row.\<close>

definition plain_lines :: "string \<Rightarrow> bool" where
  "plain_lines t \<longleftrightarrow> (\<forall>l\<in>set (Split t NL). trimmed l) \<and> run_ok 0 (Split t NL)"


text \<open>The fields the scanner reads to recognise tags.\<close>

definition lexer :: "Converter \<Rightarrow> string list \<times> bool \<times> bool \<times> bool \<times> string" where
  "lexer c = (dom_tags c, is_in_tag c, is_closing_tag c, is_in_attribute_value c, current_tag c)"







section \<open>Concrete inputs\<close>

text \<open>
  Converter states for concrete documents. The scanner that moves the tag window
  (\<open>offset_lt_\<close>, \<open>index_ch_in_html_\<close>) is not in the header, so each state sets the window
  to the tag whose handler runs next, in document order: from the character after
  \<^verbatim>\<open><\<close> up to and including \<^verbatim>\<open>>\<close>.
\<close>

text \<open>\<^verbatim>\<open><a href="x"></a>\<close>: the state when \<^verbatim>\<open><a href="x">\<close> has been read.\<close>

definition anchor_doc :: Converter where
  "anchor_doc =
     (Converter_init (''<a href='' @ [DQUOTE] @ ''x'' @ [DQUOTE] @ ''></a>''))
       \<lparr>offset_lt := 1, index_ch_in_html := 12\<rparr>"








text \<open>\<^verbatim>\<open><table><tr><th align="right"></th><th align="right"></th></tr></table>\<close>: the
  states when the first \<^verbatim>\<open><th>\<close>, the second \<^verbatim>\<open><th>\<close> and \<^verbatim>\<open></tr>\<close> have been read.\<close>

definition table_doc :: Converter where
  "table_doc =
     TagTableRow_OnHasLeftOpeningTag (TagTable_OnHasLeftOpeningTag (Converter_init
       (''<table><tr><th align='' @ [DQUOTE] @ ''right'' @ [DQUOTE] @ ''></th><th align=''
         @ [DQUOTE] @ ''right'' @ [DQUOTE] @ ''></th></tr></table>'')))"

definition table_doc_th1 :: Converter where
  "table_doc_th1 = table_doc\<lparr>offset_lt := 12, index_ch_in_html := 29\<rparr>"

definition table_doc_th2 :: Converter where
  "table_doc_th2 =
     (TagTableHeader_OnHasLeftOpeningTag table_doc_th1)\<lparr>offset_lt := 35, index_ch_in_html := 52\<rparr>"

definition table_doc_tr :: Converter where
  "table_doc_tr =
     (TagTableHeader_OnHasLeftOpeningTag table_doc_th2)\<lparr>offset_lt := 58, index_ch_in_html := 62\<rparr>"






text \<open>\<^verbatim>\<open><code class="lang-python">\<close> inside \<^verbatim>\<open>pre\<close>, the fence already written.\<close>

definition code_doc :: Converter where
  "code_doc =
     (Converter_init (''<code class='' @ [DQUOTE] @ ''lang-python'' @ [DQUOTE] @ ''>''))
       \<lparr>is_in_pre := True, offset_lt := 1, index_ch_in_html := 26, md := ''```'',
        prev_ch_in_md := CHR ''`''\<rparr>"

text \<open>\<^verbatim>\<open></blockquote><br>\<close>: a closing tag with no opening tag before it.\<close>

definition blockquote_doc :: Converter where
  "blockquote_doc = Converter_init ''</blockquote><br>''"

text \<open>\<^verbatim>\<open><script><pre>x\<close>: the ancestry stack when the character \<^verbatim>\<open>x\<close> is read.\<close>

definition script_pre_doc :: Converter where
  "script_pre_doc = (Converter_init ''<script><pre>x'')\<lparr>dom_tags := [''script'', ''pre'']\<rparr>"

text \<open>\<^verbatim>\<open><pre><script>x\<close>: the same two tags, nested the other way round.\<close>

definition pre_script_doc :: Converter where
  "pre_script_doc = (Converter_init ''<pre><script>x'')\<lparr>dom_tags := [''pre'', ''script'']\<rparr>"

section \<open>Properties of the buffer operations\<close>

lemma write_md_buffer:
  "md (write_md c m) = m"
  "md_len (write_md c m) = length m"
  "prev_ch_in_md (write_md c m) = (if m = [] then prev_ch_in_md c else last m)"
  "prev_prev_ch_in_md (write_md c m) =
     (if 1 < length m then m ! (length m - 2) else prev_prev_ch_in_md c)"
  by (simp_all add: write_md_def UpdatePrevChFromMd_def UpdateMdLen_def)

lemma write_md_frame:
  "index_ch_in_html (write_md c m) = index_ch_in_html c"
  "dom_tags (write_md c m) = dom_tags c"
  "is_in_tag (write_md c m) = is_in_tag c"
  "is_closing_tag (write_md c m) = is_closing_tag c"
  "is_in_attribute_value (write_md c m) = is_in_attribute_value c"
  "is_in_pre (write_md c m) = is_in_pre c"
  "is_in_code (write_md c m) = is_in_code c"
  "is_in_table (write_md c m) = is_in_table c"
  "is_in_list (write_md c m) = is_in_list c"
  "is_in_ordered_list (write_md c m) = is_in_ordered_list c"
  "index_li (write_md c m) = index_li c"
  "index_blockquote (write_md c m) = index_blockquote c"
  "prev_ch_in_html (write_md c m) = prev_ch_in_html c"
  "html (write_md c m) = html c"
  "offset_lt (write_md c m) = offset_lt c"
  "current_tag (write_md c m) = current_tag c"
  "prev_tag (write_md c m) = prev_tag c"
  "current_attribute (write_md c m) = current_attribute c"
  "current_attribute_value (write_md c m) = current_attribute_value c"
  "current_href (write_md c m) = current_href c"
  "current_title (write_md c m) = current_title c"
  "tableLine (write_md c m) = tableLine c"
  "char_index_in_tag_content (write_md c m) = char_index_in_tag_content c"
  by (simp_all add: write_md_def UpdatePrevChFromMd_def UpdateMdLen_def)

lemmas handler_simps = Let_def ShortenMarkdown_def AppendToMd_string_def
  AppendToMd_def AppendToMd_char_def write_md_buffer write_md_frame

lemmas eval_simps = Converter_init_def ExtractAttributeFromTagLeftOf_def startsWith_def
  DQUOTE_def NL_def NUL_def TAB_def c_str_def handler_simps AppendBlank_def RTrim_def
  isblank_def isspace_def UpdatePrevChFromMd_def IsInIgnoredTag_def IsIgnoredTag_def
  kTagAnchor_def kTagImg_def kTagParagraph_def kTagPre_def kTagTitle_def kTagTemplate_def
  kTagStyle_def kTagScript_def kTagNoScript_def kTagNav_def kAttributeHref_def
  kAttributeAlt_def kAttributeTitle_def kAttributeClass_def kAttributeSrc_def
  kAttrinuteAlign_def

lemma Extract_frame:
  "html c' = html c \<Longrightarrow> offset_lt c' = offset_lt c
   \<Longrightarrow> index_ch_in_html c' = index_ch_in_html c
   \<Longrightarrow> ExtractAttributeFromTagLeftOf c' a = ExtractAttributeFromTagLeftOf c a"
  by (simp add: ExtractAttributeFromTagLeftOf_def)

lemma Extract_write_md [simp]:
  "ExtractAttributeFromTagLeftOf (write_md c m) a = ExtractAttributeFromTagLeftOf c a"
  by (rule Extract_frame) (simp_all add: write_md_frame)

lemma IsInIgnoredTag_write_md [simp]: "IsInIgnoredTag (write_md c m) = IsInIgnoredTag c"
  by (simp add: IsInIgnoredTag_def write_md_frame)

lemma c_str_no_NUL: "NUL \<notin> set s \<Longrightarrow> c_str s = s"
  by (auto simp: c_str_def takeWhile_eq_all_conv)



section \<open>utils::Repeat: when the loop returns\<close>

lemma Repeat_loop_Some_small:
  "Repeat_loop str amount i out = Some y \<Longrightarrow> amount < 65536"
proof (rule Repeat_loop.raw_induct[where P = "\<lambda>str amount i out y. amount < 65536"], goal_cases)
  case (1 rl str amount i out y)
  have "unat i < 65536" using unsigned_less[of i, where 'a=nat] by simp
  with 1 show ?case by (cases "unat i < amount") auto
qed assumption

lemma Repeat_loop_diverges:
  "65536 \<le> amount \<Longrightarrow> Repeat_loop str amount i out = None"
  using Repeat_loop_Some_small[of str amount i out]
  by (cases "Repeat_loop str amount i out") auto



lemma size_t_of_short_minus_1: "size_t_of_short (- 1) = 18446744073709551615"
  by (simp add: size_t_of_short_def unsigned_minus_1_eq_mask mask_eq_exp_minus_1)

lemma size_t_of_short_0 [simp]: "size_t_of_short 0 = 0"
  by (simp add: size_t_of_short_def)

section \<open>Content filtering: IsInIgnoredTag\<close>

lemma IsIgnoredTag_pre_title [simp]: "\<not> IsIgnoredTag kTagPre" "\<not> IsIgnoredTag kTagTitle"
  by (simp_all add: IsIgnoredTag_def kTagPre_def kTagTitle_def kTagTemplate_def kTagStyle_def
      kTagScript_def kTagNoScript_def kTagNav_def)

lemma IsInIgnoredTag_loop_iff:
  "IsInIgnoredTag_loop ds \<longleftrightarrow>
     (\<exists>outer t inner. ds = outer @ t # inner \<and> IsIgnoredTag t
        \<and> kTagPre \<notin> set outer \<and> kTagTitle \<notin> set outer)"
proof (induction ds)
  case Nil
  then show ?case by simp
next
  case (Cons d ds)
  show ?case
  proof (cases "kTagPre = d \<or> kTagTitle = d")
    case True
    have "\<not> (\<exists>outer t inner. d # ds = outer @ t # inner \<and> IsIgnoredTag t
        \<and> kTagPre \<notin> set outer \<and> kTagTitle \<notin> set outer)"
    proof
      assume "\<exists>outer t inner. d # ds = outer @ t # inner \<and> IsIgnoredTag t
        \<and> kTagPre \<notin> set outer \<and> kTagTitle \<notin> set outer"
      then obtain outer t inner where h: "d # ds = outer @ t # inner" "IsIgnoredTag t"
        "kTagPre \<notin> set outer" "kTagTitle \<notin> set outer" by blast
      show False
      proof (cases outer)
        case Nil
        with h True show False by auto
      next
        case (Cons o os)
        with h True show False by auto
      qed
    qed
    with True show ?thesis by simp
  next
    case False
    show ?thesis
    proof (cases "IsIgnoredTag d")
      case True
      have "d # ds = [] @ d # ds" by simp
      with True False show ?thesis
        by (simp del: append_Nil) (metis append_Nil empty_iff list.set(1))
    next
      case nign: False
      have "(\<exists>outer t inner. d # ds = outer @ t # inner \<and> IsIgnoredTag t
        \<and> kTagPre \<notin> set outer \<and> kTagTitle \<notin> set outer)
        \<longleftrightarrow> (\<exists>outer t inner. ds = outer @ t # inner \<and> IsIgnoredTag t
        \<and> kTagPre \<notin> set outer \<and> kTagTitle \<notin> set outer)" (is "?L \<longleftrightarrow> ?R")
      proof
        assume ?L
        then obtain outer t inner where h: "d # ds = outer @ t # inner" "IsIgnoredTag t"
          "kTagPre \<notin> set outer" "kTagTitle \<notin> set outer" by blast
        show ?R
        proof (cases outer)
          case Nil
          with h nign show ?thesis by auto
        next
          case (Cons o os)
          with h have "ds = os @ t # inner" "kTagPre \<notin> set os" "kTagTitle \<notin> set os"
            by auto
          with h(2) show ?thesis by blast
        qed
      next
        assume ?R
        then obtain outer t inner where h: "ds = outer @ t # inner" "IsIgnoredTag t"
          "kTagPre \<notin> set outer" "kTagTitle \<notin> set outer" by blast
        then have "d # ds = (d # outer) @ t # inner" "kTagPre \<notin> set (d # outer)"
          "kTagTitle \<notin> set (d # outer)"
          using False by auto
        with h(2) show ?L by blast
      qed
      with Cons.IH False nign show ?thesis by simp
    qed
  qed
qed

text \<open>
  Claim C2, as stated: a Text-state character is dropped when some ancestor on the stack is
  an ignored tag, except that a \<^verbatim>\<open>pre\<close> or \<^verbatim>\<open>title\<close> ancestor anywhere on the stack
  keeps it. The suppression test of the code is \<^verbatim>\<open>IsInIgnoredTag\<close>. On the stack
  \<^verbatim>\<open>script, pre\<close> (document \<^verbatim>\<open><script><pre>x\<close>) the stack holds \<^verbatim>\<open>pre\<close> and the test
  still answers true: the loop returns at \<^verbatim>\<open>script\<close>, the outer tag, before it reaches
  \<^verbatim>\<open>pre\<close>.
\<close>

theorem IsInIgnoredTag_pre_inside_script:
  "IsIgnoredTag ''script'' \<and> kTagPre \<in> set (dom_tags script_pre_doc)
   \<and> IsInIgnoredTag script_pre_doc"
  by (simp add: script_pre_doc_def eval_simps)

text \<open>
  Claim C2, amended: \<^verbatim>\<open>IsInIgnoredTag\<close> walks the ancestry stack from the outermost tag
  and answers at the first tag that is \<^verbatim>\<open>pre\<close>, \<^verbatim>\<open>title\<close> or ignored. So the text is
  suppressed exactly when some ancestor is an ignored tag (\<^verbatim>\<open>script\<close>, \<^verbatim>\<open>style\<close>,
  \<^verbatim>\<open>template\<close>, \<^verbatim>\<open>noscript\<close>, \<^verbatim>\<open>nav\<close>, or a name starting with \<^verbatim>\<open>-\<close>) and no
  \<^verbatim>\<open>pre\<close> or \<^verbatim>\<open>title\<close> stands outside it: a \<^verbatim>\<open>pre\<close> or \<^verbatim>\<open>title\<close> overrides the
  suppression only of ignored tags nested inside it.
\<close>

theorem IsInIgnoredTag_outermost_decides:
  "IsInIgnoredTag c \<longleftrightarrow>
     (\<exists>outer t inner. dom_tags c = outer @ t # inner \<and> IsIgnoredTag t
        \<and> kTagPre \<notin> set outer \<and> kTagTitle \<notin> set outer)"
  unfolding IsInIgnoredTag_def by (rule IsInIgnoredTag_loop_iff)

theorem IsInIgnoredTag_outermost_decides_witness:
  "\<not> IsInIgnoredTag pre_script_doc
   \<and> \<not> (\<exists>outer t inner. dom_tags pre_script_doc = outer @ t # inner \<and> IsIgnoredTag t
        \<and> kTagPre \<notin> set outer \<and> kTagTitle \<notin> set outer)"
proof -
  have "\<not> IsInIgnoredTag pre_script_doc"
    by (simp add: pre_script_doc_def eval_simps)
  with IsInIgnoredTag_outermost_decides[of pre_script_doc] show ?thesis by simp
qed

section \<open>Anchors\<close>

text \<open>
  Claim C5: an anchor whose body collapses to nothing is discarded. When the closing
  handler runs outside an ignored subtree with the buffer ending in the \<^verbatim>\<open>[\<close> that the
  opening handler wrote (or in that \<^verbatim>\<open>[\<close> and one blank), it removes the \<^verbatim>\<open>[\<close> and
  appends nothing: no \<^verbatim>\<open>](href)\<close> follows. In particular the opening handler followed at
  once by the closing handler leaves the buffer as it was before the \<^verbatim>\<open>[\<close>. Inside an
  ignored subtree neither handler does anything.
\<close>

theorem TagAnchor_empty_body_discarded:
  "(\<not> IsInIgnoredTag c \<and> md c = m @ ''['' \<and> prev_ch_in_md c = CHR ''['' \<longrightarrow>
      md (TagAnchor_OnHasLeftClosingTag c) = m)
   \<and> (\<not> IsInIgnoredTag c \<and> md c = m @ ''[ '' \<and> prev_ch_in_md c = CHR '' '' \<longrightarrow>
      md (TagAnchor_OnHasLeftClosingTag c) = m)
   \<and> (\<not> IsInIgnoredTag c \<longrightarrow>
      (\<exists>before. md (TagAnchor_OnHasLeftOpeningTag c) = before @ ''[''
         \<and> md (TagAnchor_OnHasLeftClosingTag (TagAnchor_OnHasLeftOpeningTag c)) = before))
   \<and> (IsInIgnoredTag c \<longrightarrow>
      TagAnchor_OnHasLeftOpeningTag c = c \<and> TagAnchor_OnHasLeftClosingTag c = c)"
proof -
  have A: "\<not> IsInIgnoredTag c \<and> md c = m @ ''['' \<and> prev_ch_in_md c = CHR ''['' \<longrightarrow>
            md (TagAnchor_OnHasLeftClosingTag c) = m"
    by (simp add: TagAnchor_OnHasLeftClosingTag_def handler_simps)
  have B: "\<not> IsInIgnoredTag c \<and> md c = m @ ''[ '' \<and> prev_ch_in_md c = CHR '' '' \<longrightarrow>
            md (TagAnchor_OnHasLeftClosingTag c) = m"
    by (simp add: TagAnchor_OnHasLeftClosingTag_def handler_simps)
  have D: "IsInIgnoredTag c \<longrightarrow>
      TagAnchor_OnHasLeftOpeningTag c = c \<and> TagAnchor_OnHasLeftClosingTag c = c"
    by (simp add: TagAnchor_OnHasLeftClosingTag_def TagAnchor_OnHasLeftOpeningTag_def)
  have C: "\<exists>before. md (TagAnchor_OnHasLeftOpeningTag c) = before @ ''[''
            \<and> md (TagAnchor_OnHasLeftClosingTag (TagAnchor_OnHasLeftOpeningTag c)) = before"
    if ni0: "\<not> IsInIgnoredTag c"
  proof -
    define c1 where "c1 = (if prev_tag c = kTagImg then AppendToMd_char c NL else c)"
    define c2 where "c2 = c1\<lparr>current_title := ExtractAttributeFromTagLeftOf c1 kAttributeTitle\<rparr>"
    define b where "b = AppendBlank (c2\<lparr>md := RTrim (md c2) True\<rparr>)"
    define c3 where "c3 = AppendToMd b ''[''"
    have op: "TagAnchor_OnHasLeftOpeningTag c
              = c3\<lparr>current_href := ExtractAttributeFromTagLeftOf c3 kAttributeHref\<rparr>"
      using ni0
      by (simp add: TagAnchor_OnHasLeftOpeningTag_def Let_def c1_def c2_def b_def c3_def)
    have md3: "md c3 = md b @ ''[''" and p3: "prev_ch_in_md c3 = CHR ''[''"
      by (simp_all add: c3_def handler_simps)
    have dt: "dom_tags c3 = dom_tags c"
      by (simp add: c3_def b_def c2_def c1_def AppendBlank_def handler_simps)
    have ni: "\<not> IsInIgnoredTag (c3\<lparr>current_href := ExtractAttributeFromTagLeftOf c3 kAttributeHref\<rparr>)"
      using ni0 dt by (simp add: IsInIgnoredTag_def)
    have "md (TagAnchor_OnHasLeftClosingTag (TagAnchor_OnHasLeftOpeningTag c)) = md b"
      using ni md3 p3 unfolding op
      by (simp add: TagAnchor_OnHasLeftClosingTag_def handler_simps)
    moreover have "md (TagAnchor_OnHasLeftOpeningTag c) = md b @ ''[''"
      unfolding op using md3 by simp
    ultimately show ?thesis by blast
  qed
  from A B C D show ?thesis by blast
qed

theorem TagAnchor_empty_body_discarded_witness:
  "\<not> IsInIgnoredTag anchor_doc
   \<and> current_href (TagAnchor_OnHasLeftOpeningTag anchor_doc) = ''x''
   \<and> md (TagAnchor_OnHasLeftOpeningTag anchor_doc) = '' [''
   \<and> md (TagAnchor_OnHasLeftClosingTag (TagAnchor_OnHasLeftOpeningTag anchor_doc)) = '' ''"
proof -
  have ni: "\<not> IsInIgnoredTag anchor_doc"
    by (simp add: anchor_doc_def eval_simps)
  have op: "md (TagAnchor_OnHasLeftOpeningTag anchor_doc) = '' [''"
       "current_href (TagAnchor_OnHasLeftOpeningTag anchor_doc) = ''x''"
    by (simp_all add: anchor_doc_def TagAnchor_OnHasLeftOpeningTag_def eval_simps)
  from TagAnchor_empty_body_discarded[of anchor_doc "[]"] op ni show ?thesis by auto
qed

section \<open>Ordered lists\<close>







section \<open>Tables\<close>

text \<open>
  Claim C7, as stated: a header row of two \<^verbatim>\<open><th align="right">\<close> cells is followed by the
  separator row \<^verbatim>\<open>| ---: | ---: |\<close>. \<^verbatim>\<open>TagTableHeader\<close> appends a single \<^verbatim>\<open>-\<close> per
  cell (\<^verbatim>\<open>line += '-'\<close>), so for the document
  \<^verbatim>\<open><table><tr><th align="right"></th><th align="right"></th></tr></table>\<close> the row
  written is \<^verbatim>\<open>| -: | -: |\<close>, and the text \<^verbatim>\<open>| ---: | ---: |\<close> occurs nowhere in the
  buffer.
\<close>

theorem table_separator_has_single_dash:
  "md (TagTableRow_OnHasLeftClosingTag table_doc_tr)
     = [NL, NL] @ ''| | |'' @ [NL] @ ''| -: | -: |'' @ [NL]
   \<and> find_str (md (TagTableRow_OnHasLeftClosingTag table_doc_tr)) ''| ---: | ---: |'' = None"
  by (simp add: table_doc_tr_def table_doc_th2_def table_doc_th1_def table_doc_def
      TagTableRow_OnHasLeftClosingTag_def TagTableHeader_OnHasLeftOpeningTag_def
      TagTableRow_OnHasLeftOpeningTag_def TagTable_OnHasLeftOpeningTag_def eval_simps)

text \<open>
  Claim C7, amended: for a header row of two \<^verbatim>\<open><th align="right">\<close> cells the separator
  row is \<^verbatim>\<open>| -: | -: |\<close> (one dash per cell), written immediately beneath the header
  row. Here \<open>c1\<close> and \<open>c2\<close> are the states in which the two \<^verbatim>\<open><th>\<close> tags are left (the
  attribute scan finds \<^verbatim>\<open>align="right"\<close>, the row's separator line starts empty) and \<open>c3\<close>
  the state in which \<^verbatim>\<open></tr>\<close> is left, the buffer ending in the header row's text (not in
  \<^verbatim>\<open>|\<close> or a newline): the closing handler ends the header row with \<^verbatim>\<open>|\<close> and a
  newline, writes \<^verbatim>\<open>| -: | -: |\<close> and a newline, and clears the separator line.
\<close>

theorem table_separator_row:
  assumes "ExtractAttributeFromTagLeftOf c1 kAttrinuteAlign = ''right''"
    and "ExtractAttributeFromTagLeftOf c2 kAttrinuteAlign = ''right''"
    and "tableLine c1 = []"
    and "tableLine c2 = tableLine (TagTableHeader_OnHasLeftOpeningTag c1)"
    and "tableLine c3 = tableLine (TagTableHeader_OnHasLeftOpeningTag c2)"
    and "md c3 \<noteq> []" and "last (md c3) \<noteq> CHR ''|''" and "last (md c3) \<noteq> NL"
  shows "md (TagTableHeader_OnHasLeftOpeningTag c1) = md c1 @ ''| ''
       \<and> md (TagTableHeader_OnHasLeftOpeningTag c2) = md c2 @ ''| ''
       \<and> md (TagTableRow_OnHasLeftClosingTag c3)
           = md c3 @ ''|'' @ [NL] @ ''| -: | -: |'' @ [NL]
       \<and> tableLine (TagTableRow_OnHasLeftClosingTag c3) = []"
proof -
  have t1: "tableLine (TagTableHeader_OnHasLeftOpeningTag c1) = ''| -: ''"
    using assms(1,3) by (simp add: TagTableHeader_OnHasLeftOpeningTag_def handler_simps)
  have t2: "tableLine (TagTableHeader_OnHasLeftOpeningTag c2) = ''| -: | -: ''"
    using assms(2,4) t1 by (simp add: TagTableHeader_OnHasLeftOpeningTag_def handler_simps)
  have m1: "md (TagTableHeader_OnHasLeftOpeningTag c1) = md c1 @ ''| ''"
    by (simp add: TagTableHeader_OnHasLeftOpeningTag_def handler_simps)
  have m2: "md (TagTableHeader_OnHasLeftOpeningTag c2) = md c2 @ ''| ''"
    by (simp add: TagTableHeader_OnHasLeftOpeningTag_def handler_simps)
  have t3: "tableLine c3 = ''| -: | -: ''" using assms(5) t2 by simp
  have cs: "c_str (''| -: | -: '' @ [CHR ''|'', NL]) = ''| -: | -: |'' @ [NL]"
    by (simp add: c_str_def NUL_def NL_def)
  have r: "md (TagTableRow_OnHasLeftClosingTag c3)
             = md c3 @ ''|'' @ [NL] @ ''| -: | -: |'' @ [NL]
       \<and> tableLine (TagTableRow_OnHasLeftClosingTag c3) = []"
    using assms(6,7,8) t3 cs
    by (simp add: TagTableRow_OnHasLeftClosingTag_def UpdatePrevChFromMd_def handler_simps NL_def)
  with m1 m2 show ?thesis by simp
qed

theorem table_separator_row_witness:
  "ExtractAttributeFromTagLeftOf table_doc_th1 kAttrinuteAlign = ''right''
   \<and> ExtractAttributeFromTagLeftOf table_doc_th2 kAttrinuteAlign = ''right''
   \<and> md table_doc_tr = [NL, NL] @ ''| | ''
   \<and> md (TagTableRow_OnHasLeftClosingTag table_doc_tr)
       = [NL, NL] @ ''| | |'' @ [NL] @ ''| -: | -: |'' @ [NL]"
proof -
  have e1: "ExtractAttributeFromTagLeftOf table_doc_th1 kAttrinuteAlign = ''right''"
    by (simp add: table_doc_th1_def table_doc_def TagTableRow_OnHasLeftOpeningTag_def
        TagTable_OnHasLeftOpeningTag_def eval_simps)
  have e2: "ExtractAttributeFromTagLeftOf table_doc_th2 kAttrinuteAlign = ''right''"
    by (simp add: table_doc_th2_def table_doc_th1_def table_doc_def
        TagTableHeader_OnHasLeftOpeningTag_def TagTableRow_OnHasLeftOpeningTag_def
        TagTable_OnHasLeftOpeningTag_def eval_simps)
  have t1: "tableLine table_doc_th1 = []"
    by (simp add: table_doc_th1_def table_doc_def TagTableRow_OnHasLeftOpeningTag_def
        TagTable_OnHasLeftOpeningTag_def eval_simps)
  have t2: "tableLine table_doc_th2 = tableLine (TagTableHeader_OnHasLeftOpeningTag table_doc_th1)"
    by (simp add: table_doc_th2_def)
  have t3: "tableLine table_doc_tr = tableLine (TagTableHeader_OnHasLeftOpeningTag table_doc_th2)"
    by (simp add: table_doc_tr_def)
  have m3: "md table_doc_tr = [NL, NL] @ ''| | ''"
    by (simp add: table_doc_tr_def table_doc_th2_def table_doc_th1_def table_doc_def
        TagTableHeader_OnHasLeftOpeningTag_def TagTableRow_OnHasLeftOpeningTag_def
        TagTable_OnHasLeftOpeningTag_def eval_simps)
  show ?thesis
    using table_separator_row[OF e1 e2 t1 t2 t3] m3 e1 e2 by (simp add: NL_def)
qed

section \<open>Preformatted code\<close>





text \<open>
  Claim C10: for a \<^verbatim>\<open>code\<close> element opened inside \<^verbatim>\<open>pre\<close>, outside lists and
  blockquotes, with a non-empty class attribute \<open>cls\<close>, the token written on the opening
  fence is \<open>cls\<close> without its first nine characters (\<^verbatim>\<open>code.erase(0, 9)\<close>), whatever
  \<open>cls\<close> starts with: a class shorter than nine characters gives the empty token. The
  token goes through \<^verbatim>\<open>AppendToMd(const std::string&)\<close>, that is through \<^verbatim>\<open>c_str()\<close>;
  for a class without a NUL byte this is the token itself. Before the token, one
  trailing blank of the buffer is removed; after it a newline is written.
\<close>

theorem TagCode_language_token:
  assumes "is_in_pre c" and "\<not> is_in_list c" and "index_blockquote c = 0"
    and "ExtractAttributeFromTagLeftOf c kAttributeClass = cls" and "cls \<noteq> []"
  shows "md (TagCode_OnHasLeftOpeningTag c) =
           (if prev_ch_in_md c = CHR '' '' then take (length (md c) - 1) (md c) else md c)
           @ c_str (drop 9 cls) @ [NL]
         \<and> (NUL \<notin> set cls \<longrightarrow>
              md (TagCode_OnHasLeftOpeningTag c) =
                (if prev_ch_in_md c = CHR '' '' then take (length (md c) - 1) (md c) else md c)
                @ drop 9 cls @ [NL])
         \<and> (length cls \<le> 9 \<longrightarrow>
              md (TagCode_OnHasLeftOpeningTag c) =
                (if prev_ch_in_md c = CHR '' '' then take (length (md c) - 1) (md c) else md c)
                @ [NL])"
proof -
  have ex: "ExtractAttributeFromTagLeftOf (c\<lparr>is_in_code := True\<rparr>) kAttributeClass = cls"
    using assms(4) by (simp add: ExtractAttributeFromTagLeftOf_def)
  have main: "md (TagCode_OnHasLeftOpeningTag c) =
           (if prev_ch_in_md c = CHR '' '' then take (length (md c) - 1) (md c) else md c)
           @ c_str (drop 9 cls) @ [NL]"
    using assms(1,2,3,5) ex
    by (simp add: TagCode_OnHasLeftOpeningTag_def handler_simps)
  have "NUL \<notin> set cls \<Longrightarrow> c_str (drop 9 cls) = drop 9 cls"
    by (rule c_str_no_NUL) (auto dest: in_set_dropD)
  moreover have "length cls \<le> 9 \<Longrightarrow> c_str (drop 9 cls) = []"
    by (simp add: c_str_def)
  ultimately show ?thesis using main by simp
qed

theorem TagCode_language_token_witness:
  "ExtractAttributeFromTagLeftOf code_doc kAttributeClass = ''lang-python''
   \<and> md (TagCode_OnHasLeftOpeningTag code_doc) = ''```on'' @ [NL]"
proof -
  have e: "ExtractAttributeFromTagLeftOf code_doc kAttributeClass = ''lang-python''"
    by (simp add: code_doc_def eval_simps)
  have p: "is_in_pre code_doc" "\<not> is_in_list code_doc" "index_blockquote code_doc = 0"
    by (simp_all add: code_doc_def Converter_init_def)
  show ?thesis
    using TagCode_language_token[OF p e] e
    by (simp add: code_doc_def Converter_init_def NUL_def c_str_def)
qed

section \<open>Termination\<close>




text \<open>
  Claim C9: a conversion terminates for every input. \<^verbatim>\<open>utils::Repeat\<close> counts with a
  \<^verbatim>\<open>uint16_t\<close> against a \<^verbatim>\<open>size_t\<close> amount: for an amount of 65536 or more the counter
  wraps before it reaches the amount and the loop never returns. The handlers pass
  \<^verbatim>\<open>index_blockquote\<close>, a \<^verbatim>\<open>short\<close>, as the amount. For the document
  \<^verbatim>\<open></blockquote><br>\<close> the closing handler of \<^verbatim>\<open>blockquote\<close> takes the depth from 0 to -1,
  which converts to the amount \<open>2 ^ 64 - 1\<close>, and the handler of \<^verbatim>\<open><br>\<close> does not return.
\<close>

theorem Repeat_does_not_return:
  "Repeat ''> '' 65536 = None
   \<and> sint (index_blockquote (TagBlockquote_OnHasLeftClosingTag blockquote_doc)) = - 1
   \<and> size_t_of_short (index_blockquote (TagBlockquote_OnHasLeftClosingTag blockquote_doc))
       = 18446744073709551615
   \<and> TagBreak_OnHasLeftOpeningTag (TagBlockquote_OnHasLeftClosingTag blockquote_doc) = None"
  by (simp add: TagBreak_OnHasLeftOpeningTag_def TagBlockquote_OnHasLeftClosingTag_def
      blockquote_doc_def Converter_init_def Repeat_def size_t_of_short_minus_1
      Repeat_loop_diverges)

section \<open>The normalizer: lines, trimming and blank runs\<close>


lemma Split_no_delim: "l \<in> set (Split s d) \<Longrightarrow> d \<notin> set l"
  by (induction s arbitrary: l) (auto split: if_splits list.splits)

lemma Split_join: "ls \<noteq> [] \<Longrightarrow> (\<forall>l\<in>set ls. NL \<notin> set l) \<Longrightarrow> Split (join_lines ls) NL = ls"
proof (induction ls rule: join_lines.induct)
  case 1
  then show ?case by simp
next
  case (2 l)
  then have "NL \<notin> set l" by simp
  then have "Split l NL = [l]" by (induction l) auto
  then show ?case by simp
next
  case (3 l m ls)
  then have IH: "Split (join_lines (m # ls)) NL = m # ls" by simp
  have "NL \<notin> set l" using 3 by simp
  then have "Split (l @ NL # join_lines (m # ls)) NL = l # Split (join_lines (m # ls)) NL"
    by (induction l) auto
  with IH show ?case by simp
qed

lemma LTrim_hd: "LTrim s \<noteq> [] \<Longrightarrow> \<not> isspace (hd (LTrim s))"
  unfolding LTrim_def by (rule hd_dropWhile)

lemma RTrim_rev: "RTrim s False = rev (LTrim (rev s))"
  by (simp add: RTrim_def LTrim_def)

lemma RTrim_last: "RTrim s False \<noteq> [] \<Longrightarrow> \<not> isspace (last (RTrim s False))"
proof -
  assume "RTrim s False \<noteq> []"
  then have ne: "LTrim (rev s) \<noteq> []" by (simp add: RTrim_rev)
  have "last (RTrim s False) = hd (LTrim (rev s))"
    using ne by (simp add: RTrim_rev last_rev)
  with LTrim_hd[OF ne] show ?thesis by simp
qed

lemma LTrim_suffix: "\<exists>t. s = t @ LTrim s"
  by (rule exI[of _ "takeWhile isspace s"]) (simp add: LTrim_def)

lemma RTrim_prefix: "\<exists>t. s = RTrim s False @ t"
proof -
  obtain t where "rev s = t @ LTrim (rev s)" using LTrim_suffix[of "rev s"] by blast
  then have "rev (rev s) = rev (t @ LTrim (rev s))" by simp
  then have "s = rev (LTrim (rev s)) @ rev t" by simp
  then show ?thesis by (auto simp: RTrim_rev)
qed

lemma RTrim_hd: "RTrim s False \<noteq> [] \<Longrightarrow> hd (RTrim s False) = hd s"
proof -
  assume a: "RTrim s False \<noteq> []"
  obtain t where t: "s = RTrim s False @ t" using RTrim_prefix by blast
  have "hd (RTrim s False @ t) = hd (RTrim s False)" using a by simp
  with t show ?thesis by simp
qed

lemma trimmed_Trim: "trimmed (Trim l)"
proof (cases "Trim l = []")
  case True
  then show ?thesis by (simp add: trimmed_def)
next
  case False
  then have ne: "RTrim (LTrim l) False \<noteq> []" by (simp add: Trim_def)
  have ne2: "LTrim l \<noteq> []" using ne by (auto simp: RTrim_def)
  have "hd (Trim l) = hd (LTrim l)" using RTrim_hd[OF ne] by (simp add: Trim_def)
  with LTrim_hd[OF ne2] RTrim_last[OF ne] False show ?thesis
    by (simp add: trimmed_def Trim_def)
qed

lemma LTrim_id: "s \<noteq> [] \<Longrightarrow> \<not> isspace (hd s) \<Longrightarrow> LTrim s = s"
  by (cases s) (simp_all add: LTrim_def)

lemma RTrim_id: "s \<noteq> [] \<Longrightarrow> \<not> isspace (last s) \<Longrightarrow> RTrim s False = s"
proof -
  assume a: "s \<noteq> []" "\<not> isspace (last s)"
  then have "rev s \<noteq> []" "\<not> isspace (hd (rev s))" by (simp_all add: hd_rev)
  then have "LTrim (rev s) = rev s" by (rule LTrim_id)
  then show ?thesis by (simp add: RTrim_rev)
qed

lemma Trim_Nil [simp]: "Trim [] = []"
  by (simp add: Trim_def LTrim_def RTrim_def)

lemma Trim_trimmed: "trimmed l \<Longrightarrow> Trim l = l"
proof (cases "l = []")
  case True
  then show ?thesis by simp
next
  case False
  assume "trimmed l"
  with False have "\<not> isspace (hd l)" "\<not> isspace (last l)" by (simp_all add: trimmed_def)
  with False show ?thesis by (simp add: Trim_def LTrim_id RTrim_id)
qed

lemma set_LTrim: "set (LTrim s) \<subseteq> set s"
  unfolding LTrim_def by (auto dest: set_dropWhileD)

lemma set_Trim: "set (Trim l) \<subseteq> set l"
proof -
  have "set (RTrim (LTrim l) False) \<subseteq> set (LTrim l)"
    using set_LTrim[of "rev (LTrim l)"] by (simp add: RTrim_rev)
  with set_LTrim[of l] show ?thesis by (auto simp: Trim_def)
qed


lemma isspace_NL [simp]: "isspace NL"
  by (simp add: isspace_def NL_def)

lemma LTrim_join:
  "\<forall>l\<in>set ls. trimmed l \<Longrightarrow> LTrim (join_lines ls) = join_lines (dropWhile (\<lambda>l. l = []) ls)"
proof (induction ls rule: join_lines.induct)
  case 1
  then show ?case by (simp add: LTrim_def)
next
  case (2 l)
  show ?case
  proof (cases "l = []")
    case True
    then show ?thesis by (simp add: LTrim_def)
  next
    case False
    with 2 have "\<not> isspace (hd l)" by (simp add: trimmed_def)
    with False show ?thesis by (simp add: LTrim_id)
  qed
next
  case (3 l m ls)
  show ?case
  proof (cases "l = []")
    case True
    have "LTrim (NL # join_lines (m # ls)) = LTrim (join_lines (m # ls))"
      by (simp add: LTrim_def)
    with True 3 show ?thesis by simp
  next
    case False
    with 3 have "\<not> isspace (hd l)" by (simp add: trimmed_def)
    with False have "LTrim (l @ NL # join_lines (m # ls)) = l @ NL # join_lines (m # ls)"
      by (intro LTrim_id) auto
    with False show ?thesis by simp
  qed
qed

lemma rev_join: "rev (join_lines ls) = join_lines (map rev (rev ls))"
proof (induction ls rule: join_lines.induct)
  case 1
  then show ?case by simp
next
  case (2 l)
  then show ?case by simp
next
  case (3 l m ls)
  have app: "\<And>xs y. xs \<noteq> [] \<Longrightarrow> join_lines (xs @ [y]) = join_lines xs @ NL # y"
  proof -
    fix xs :: "string list" and y
    assume "xs \<noteq> []"
    then show "join_lines (xs @ [y]) = join_lines xs @ NL # y"
      by (induction xs rule: join_lines.induct) auto
  qed
  have "rev (join_lines (l # m # ls)) = rev (join_lines (m # ls)) @ NL # rev l" by simp
  also have "\<dots> = join_lines (map rev (rev (m # ls))) @ NL # rev l" using 3 by simp
  also have "\<dots> = join_lines (map rev (rev (m # ls)) @ [rev l])"
    by (rule app[symmetric]) simp
  finally show ?case by simp
qed

lemma trimmed_rev: "trimmed (rev l) = trimmed l"
  by (cases "l = []") (auto simp: trimmed_def hd_rev last_rev)

lemma RTrim_join:
  assumes "\<forall>l\<in>set ls. trimmed l"
  shows "RTrim (join_lines ls) False = join_lines (rev (dropWhile (\<lambda>l. l = []) (rev ls)))"
proof -
  have t: "\<forall>l\<in>set (map rev (rev ls)). trimmed l" using assms by (simp add: trimmed_rev)
  have "RTrim (join_lines ls) False = rev (LTrim (join_lines (map rev (rev ls))))"
    by (simp add: RTrim_rev rev_join)
  also have "\<dots> = rev (join_lines (dropWhile (\<lambda>l. l = []) (map rev (rev ls))))"
    using LTrim_join[OF t] by simp
  also have "dropWhile (\<lambda>l. l = []) (map rev (rev ls)) = map rev (dropWhile (\<lambda>l. l = []) (rev ls))"
    by (simp add: dropWhile_map comp_def)
  also have "rev (join_lines (map rev (dropWhile (\<lambda>l. l = []) (rev ls))))
            = join_lines (rev (dropWhile (\<lambda>l. l = []) (rev ls)))"
    by (simp add: rev_join rev_map comp_def)
  finally show ?thesis .
qed

lemma Trim_join:
  assumes "\<forall>l\<in>set ls. trimmed l"
  shows "Trim (join_lines ls) = join_lines (strip_blank ls)"
proof -
  have "\<forall>l\<in>set (dropWhile (\<lambda>l. l = []) ls). trimmed l"
    using assms by (auto dest: set_dropWhileD)
  from RTrim_join[OF this] LTrim_join[OF assms] show ?thesis
    by (simp add: Trim_def strip_blank_def)
qed

lemma run_ok_collapse: "run_ok n (collapse_blank n ls)"
  by (induction ls arbitrary: n) auto

lemma collapse_run_ok: "run_ok n ls \<Longrightarrow> collapse_blank n ls = ls"
  by (induction ls arbitrary: n) auto

lemma run_ok_mono: "run_ok n ls \<Longrightarrow> k \<le> n \<Longrightarrow> run_ok k ls"
  by (induction ls arbitrary: n k) auto

lemma run_ok_dropWhile: "run_ok n ls \<Longrightarrow> run_ok 0 (dropWhile (\<lambda>l. l = []) ls)"
proof (induction ls arbitrary: n)
  case Nil
  then show ?case by simp
next
  case (Cons l ls)
  then show ?case by (auto intro: run_ok_mono)
qed

lemma run_ok_butlast_blank: "run_ok n ls \<Longrightarrow> run_ok n (rev (dropWhile (\<lambda>l. l = []) (rev ls)))"
proof (induction ls arbitrary: n)
  case Nil
  then show ?case by simp
next
  case (Cons l ls)
  have e: "rev (dropWhile (\<lambda>l. l = []) (rev ls @ [l]))
           = (if (\<forall>x\<in>set ls. x = []) \<and> l = [] then []
              else l # rev (dropWhile (\<lambda>l. l = []) (rev ls)))"
    by (auto simp: dropWhile_append)
  show ?case using Cons.prems Cons.IH[of "Suc n"] Cons.IH[of 0] by (simp add: e)
qed

lemma run_ok_strip: "run_ok n ls \<Longrightarrow> run_ok 0 (strip_blank ls)"
  unfolding strip_blank_def by (intro run_ok_butlast_blank run_ok_dropWhile)

lemma strip_props:
  "set (strip_blank ls) \<subseteq> set ls"
proof
  fix x assume "x \<in> set (strip_blank ls)"
  then have "x \<in> set (dropWhile (\<lambda>l. l = []) (rev (dropWhile (\<lambda>l. l = []) ls)))"
    by (simp add: strip_blank_def)
  then have "x \<in> set (rev (dropWhile (\<lambda>l. l = []) ls))" by (rule set_dropWhileD)
  then have "x \<in> set (dropWhile (\<lambda>l. l = []) ls)" by simp
  then show "x \<in> set ls" by (rule set_dropWhileD)
qed

lemma strip_blank_ends:
  assumes "strip_blank ls \<noteq> []"
  shows "hd (strip_blank ls) \<noteq> [] \<and> last (strip_blank ls) \<noteq> []"
proof -
  define a where "a = dropWhile (\<lambda>l::string. l = []) ls"
  define b where "b = dropWhile (\<lambda>l::string. l = []) (rev a)"
  have s: "strip_blank ls = rev b" by (simp add: strip_blank_def a_def b_def)
  have bne: "b \<noteq> []" using assms s by simp
  have ane: "a \<noteq> []"
  proof
    assume "a = []"
    then have "b = []" by (simp add: b_def)
    with bne show False by simp
  qed
  have hb: "hd b \<noteq> []" using bne unfolding b_def by (rule hd_dropWhile)
  have ha: "hd a \<noteq> []" using ane unfolding a_def by (rule hd_dropWhile)
  have "rev a = takeWhile (\<lambda>l. l = []) (rev a) @ b" by (simp add: b_def)
  then have "last (rev a) = last (takeWhile (\<lambda>l. l = []) (rev a) @ b)" by (rule arg_cong)
  then have "last (rev a) = last b" using bne by simp
  then have lb: "last b = hd a" using ane by (simp add: last_rev)
  have "hd (rev b) = last b" using bne by (simp add: hd_rev)
  moreover have "last (rev b) = hd b" using bne by (simp add: last_rev)
  ultimately show ?thesis using s lb ha hb by simp
qed

lemma strip_blank_id:
  assumes "xs \<noteq> []" and "hd xs \<noteq> []" and "last xs \<noteq> []"
  shows "strip_blank xs = xs"
proof -
  have 1: "dropWhile (\<lambda>l::string. l = []) xs = xs"
    using assms(1,2) by (cases xs) simp_all
  have "rev xs \<noteq> []" "hd (rev xs) \<noteq> []" using assms(1,3) by (simp_all add: hd_rev)
  then have 2: "dropWhile (\<lambda>l::string. l = []) (rev xs) = rev xs"
    by (cases "rev xs") simp_all
  show ?thesis by (simp add: strip_blank_def 1 2)
qed

lemma strip_strip: "strip_blank (strip_blank ls) = strip_blank ls"
proof (cases "strip_blank ls = []")
  case True
  have "strip_blank [] = []" by (simp add: strip_blank_def)
  then show ?thesis unfolding True .
next
  case False
  from strip_blank_ends[OF False] have "hd (strip_blank ls) \<noteq> []" "last (strip_blank ls) \<noteq> []"
    by blast+
  with False show ?thesis by (rule strip_blank_id)
qed

lemma CleanUpMarkdown_text_idem: "CleanUpMarkdown_text (CleanUpMarkdown_text s) = CleanUpMarkdown_text s"
proof -
  define ls where "ls = collapse_blank 0 (map Trim (Split s NL))"
  have tr: "\<forall>l\<in>set ls. trimmed l"
  proof
    fix l assume "l \<in> set ls"
    moreover have "\<And>n xs. set (collapse_blank n xs) \<subseteq> set xs"
    proof -
      fix n xs show "set (collapse_blank n xs) \<subseteq> set xs"
        by (induction xs arbitrary: n) auto
    qed
    ultimately have "l \<in> set (map Trim (Split s NL))" unfolding ls_def by blast
    then show "trimmed l" by (auto simp: trimmed_Trim)
  qed
  have nl: "\<forall>l\<in>set ls. NL \<notin> set l"
  proof
    fix l assume "l \<in> set ls"
    moreover have "\<And>n xs. set (collapse_blank n xs) \<subseteq> set xs"
    proof -
      fix n xs show "set (collapse_blank n xs) \<subseteq> set xs"
        by (induction xs arbitrary: n) auto
    qed
    ultimately have "l \<in> set (map Trim (Split s NL))" unfolding ls_def by blast
    then obtain x where "x \<in> set (Split s NL)" "l = Trim x" by auto
    then show "NL \<notin> set l" using Split_no_delim[of x s NL] set_Trim[of x] by auto
  qed
  have r: "CleanUpMarkdown_text s = join_lines (strip_blank ls)"
    unfolding CleanUpMarkdown_text_def TidyAllLines_def ls_def[symmetric] by (rule Trim_join[OF tr])
  show ?thesis
  proof (cases "strip_blank ls = []")
    case True
    with r have "CleanUpMarkdown_text s = []" by simp
    moreover have "CleanUpMarkdown_text [] = []"
      by (simp add: CleanUpMarkdown_text_def TidyAllLines_def)
    ultimately show ?thesis by simp
  next
    case False
    have sub: "set (strip_blank ls) \<subseteq> set ls" by (rule strip_props)
    have nl': "\<forall>l\<in>set (strip_blank ls). NL \<notin> set l" using nl sub by blast
    have tr': "\<forall>l\<in>set (strip_blank ls). trimmed l" using tr sub by blast
    have sp: "Split (join_lines (strip_blank ls)) NL = strip_blank ls"
      by (rule Split_join[OF False nl'])
    have mt: "map Trim (strip_blank ls) = strip_blank ls"
      using tr' by (simp add: map_idI Trim_trimmed)
    have "run_ok 0 ls" unfolding ls_def by (rule run_ok_collapse)
    then have "run_ok 0 (strip_blank ls)" by (rule run_ok_strip)
    then have co: "collapse_blank 0 (strip_blank ls) = strip_blank ls" by (rule collapse_run_ok)
    have "CleanUpMarkdown_text (join_lines (strip_blank ls))
          = Trim (join_lines (strip_blank ls))"
      by (simp add: CleanUpMarkdown_text_def TidyAllLines_def sp mt co)
    also have "\<dots> = join_lines (strip_blank (strip_blank ls))" by (rule Trim_join[OF tr'])
    also have "\<dots> = join_lines (strip_blank ls)" by (simp add: strip_strip)
    finally show ?thesis using r by simp
  qed
qed



















lemma write_md_twice: "write_md (write_md c m) m = write_md c m"
  by (simp add: write_md_def UpdatePrevChFromMd_def UpdateMdLen_def)





text \<open>
  Claim C4: the normalizer is idempotent. Applying the clean-up (per-line trimming,
  blank-line collapsing, whole-document trim) to its own result changes nothing, for
  every text and for every converter state.
\<close>

theorem CleanUpMarkdown_idempotent:
  "CleanUpMarkdown_text (CleanUpMarkdown_text s) = CleanUpMarkdown_text s
   \<and> CleanUpMarkdown (CleanUpMarkdown c) = CleanUpMarkdown c"
proof -
  have t: "\<And>s. CleanUpMarkdown_text (CleanUpMarkdown_text s) = CleanUpMarkdown_text s"
    by (rule CleanUpMarkdown_text_idem)
  have "CleanUpMarkdown (CleanUpMarkdown c)
        = write_md (write_md c (CleanUpMarkdown_text (md c))) (CleanUpMarkdown_text (md c))"
    by (simp add: CleanUpMarkdown_def write_md_buffer t)
  then have "CleanUpMarkdown (CleanUpMarkdown c) = CleanUpMarkdown c"
    by (simp add: write_md_twice CleanUpMarkdown_def)
  with t show ?thesis by simp
qed

section \<open>The scanner: the ancestry stack\<close>

lemma lexer_prims [simp]:
  "lexer (write_md c m) = lexer c"
  "lexer (AppendToMd c s) = lexer c"
  "lexer (AppendToMd_char c ch) = lexer c"
  "lexer (AppendToMd_string c s) = lexer c"
  "lexer (AppendBlank c) = lexer c"
  "lexer (ShortenMarkdown c n) = lexer c"
  "lexer (UpdatePrevChFromMd c) = lexer c"
  "lexer (ReplacePreviousSpaceInLineByNewline c) = lexer c"
  "lexer (TurnLineIntoHeader1 c) = lexer c"
  by (simp_all add: lexer_def handler_simps AppendBlank_def
      ReplacePreviousSpaceInLineByNewline_def TurnLineIntoHeader1_def UpdatePrevChFromMd_def)

lemma lexer_updates [simp]:
  "lexer (c\<lparr>md := m\<rparr>) = lexer c"
  "lexer (c\<lparr>is_in_pre := b\<rparr>) = lexer c"
  "lexer (c\<lparr>is_in_code := b\<rparr>) = lexer c"
  "lexer (c\<lparr>is_in_table := b\<rparr>) = lexer c"
  "lexer (c\<lparr>is_in_list := b\<rparr>) = lexer c"
  "lexer (c\<lparr>is_in_ordered_list := b\<rparr>) = lexer c"
  "lexer (c\<lparr>index_li := i\<rparr>) = lexer c"
  "lexer (c\<lparr>index_blockquote := w\<rparr>) = lexer c"
  "lexer (c\<lparr>current_title := s\<rparr>) = lexer c"
  "lexer (c\<lparr>current_href := s\<rparr>) = lexer c"
  "lexer (c\<lparr>tableLine := s\<rparr>) = lexer c"
  "lexer (c\<lparr>prev_tag := s\<rparr>) = lexer c"
  "lexer (c\<lparr>prev_ch_in_html := ch\<rparr>) = lexer c"
  "lexer (c\<lparr>char_index_in_tag_content := v\<rparr>) = lexer c"
  "lexer (c\<lparr>index_ch_in_html := v\<rparr>) = lexer c"
  "lexer (c\<lparr>offset_lt := v\<rparr>) = lexer c"
  "lexer (c\<lparr>current_attribute := s\<rparr>) = lexer c"
  "lexer (c\<lparr>current_attribute_value := s\<rparr>) = lexer c"
  by (simp_all add: lexer_def)






lemma lexer_text [simp]: "lexer (ParseCharInTagContent c ch) = lexer c"
  by (simp add: ParseCharInTagContent_def)

lemma bq_prims [simp]:
  "index_blockquote (AppendToMd c s) = index_blockquote c"
  "index_blockquote (AppendToMd_char c ch) = index_blockquote c"
  "index_blockquote (AppendToMd_string c s) = index_blockquote c"
  "index_blockquote (AppendBlank c) = index_blockquote c"
  "index_blockquote (ShortenMarkdown c n) = index_blockquote c"
  "index_blockquote (UpdatePrevChFromMd c) = index_blockquote c"
  "index_blockquote (ReplacePreviousSpaceInLineByNewline c) = index_blockquote c"
  "index_blockquote (TurnLineIntoHeader1 c) = index_blockquote c"
  by (simp_all add: handler_simps AppendBlank_def
      ReplacePreviousSpaceInLineByNewline_def TurnLineIntoHeader1_def UpdatePrevChFromMd_def)


























lemma dom_tags_CleanUpMarkdown [simp]: "dom_tags (CleanUpMarkdown c) = dom_tags c"
  by (simp add: CleanUpMarkdown_def write_md_frame)




section \<open>Whole conversions with the modelled scanner\<close>

text \<open>
  The handler theorems above speak of the states in which the scanner calls a handler.
  With the scanner as modelled from the spec, the documents of the claims convert as
  follows (the buffer after the normalizer, and the verdict).
\<close>

lemma text_char_filter:
  "IsInIgnoredTag c \<Longrightarrow> md (ParseCharInTagContent c ch) = md c"
  "\<not> IsInIgnoredTag c \<Longrightarrow> \<not> isblank ch \<Longrightarrow> md (ParseCharInTagContent c ch) = md c @ [ch]"
  by (simp_all add: ParseCharInTagContent_def AppendToMd_char_def write_md_buffer)

lemma closed_doc_render: "render closed_doc = ''<div><p>text</p></div>''"
  by (simp add: closed_doc_def dangling_doc_def render_def)

lemma closed_doc_conversion:
  "map_option (\<lambda>c. (md c, ok c)) (Convert2Md ''<div><p>text</p></div>'') = Some (''text'', True)"
  by code_simp

text \<open>With this scanner the conversion of \<^verbatim>\<open></blockquote><br>\<close> does not return.\<close>

lemma blockquote_br_diverges: "Convert2Md ''</blockquote><br>'' = None"
  by (simp add: Convert2Md_def Convert2Md_step_def ParseCharInTag_def OnHasLeftTag_def
      OnHasEnteredTag_def ParseCharInTagContent_def tag_name_def tags_def tolower_def
      TagBlockquote_OnHasLeftClosingTag_def TagBreak_OnHasLeftOpeningTag_def
      Repeat_def size_t_of_short_minus_1 Repeat_loop_diverges eval_simps)

lemma anchor_conversion:
  "map_option md (Convert2Md (''<a href='' @ [DQUOTE] @ ''x'' @ [DQUOTE] @ ''></a>'')) = Some []"
  by code_simp

lemma ordered_list_conversion:
  "map_option md (Convert2Md ''<ol><li>one</li><li>two</li></ol><ol><li>three</li></ol>'')
     = Some (''1. one'' @ [NL] @ ''2. two'' @ [NL, NL, NL] @ ''1. three'')"
  by code_simp

lemma table_conversion:
  "map_option md (Convert2Md (''<table><tr><th align='' @ [DQUOTE] @ ''right'' @ [DQUOTE]
      @ ''>A</th><th align='' @ [DQUOTE] @ ''right'' @ [DQUOTE] @ ''>B</th></tr></table>''))
     = Some (''| A| B|'' @ [NL] @ ''| -: | -: |'')"
  by code_simp

section \<open>Preformatted code: the whole conversion\<close>












lemma plain_single_line:
  "NL \<notin> set t \<Longrightarrow> trimmed t \<Longrightarrow> plain_lines t"
proof -
  assume n: "NL \<notin> set t" and tr: "trimmed t"
  from n have "Split t NL = [t]" by (induction t) auto
  with tr show ?thesis by (simp add: plain_lines_def)
qed



end
